theory Spec2Isabelle
  imports Complex_Main "HOL-Library.Char_ord" "HOL-Library.List_Lexorder"
begin

section \<open>JavaScript values used by the program\<close>

text \<open>
  A JavaScript string is a \<open>string\<close>: its UTF-8 bytes. The program compares, joins and
  tests ASCII prefixes of strings, which reads the same on the bytes as on the UTF-16 code
  units; the one place that works unit by unit, the file-name pattern of \<open>uploadFile\<close>,
  takes the code units themselves. Where the program only tests the truthiness of a value
  that is a string, \<open>null\<close> or \<open>undefined\<close>, the value is a \<open>string option\<close> and
  \<open>None\<close> stands for both \<open>null\<close> and \<open>undefined\<close>. Where it tells them apart (a
  parameter default applies to \<open>undefined\<close> only), the value is an \<open>arg\<close>. A thrown
  exception is a value of type \<open>error\<close>, and a function that may throw returns
  \<open>error + 'a\<close>.
\<close>

datatype error = Error string | TypeError string | SyntaxError string | DOMException string

datatype 'a arg = Omitted | Null | Given 'a

text \<open>A value used as a property key: \<open>null\<close> reads the key "null".\<close>

definition key_of :: "string arg \<Rightarrow> string" where
  "key_of v = (case v of Given s \<Rightarrow> s | Null \<Rightarrow> ''null'' | Omitted \<Rightarrow> ''undefined'')"

text \<open>The value as a field of a returned or serialised object.\<close>

definition nullable :: "string arg \<Rightarrow> string option" where
  "nullable v = (case v of Given s \<Rightarrow> Some s | _ \<Rightarrow> None)"

text \<open>A parameter default: it replaces \<open>undefined\<close> only.\<close>

definition default_to :: "string \<Rightarrow> string arg \<Rightarrow> string arg" where
  "default_to d v = (case v of Omitted \<Rightarrow> Given d | _ \<Rightarrow> v)"

definition truthy :: "string option \<Rightarrow> bool" where
  "truthy v = (case v of None \<Rightarrow> False | Some s \<Rightarrow> s \<noteq> [])"

text \<open>Sequencing: an exception thrown by a step ends the function.\<close>

definition and_then :: "error + 'a \<Rightarrow> ('a \<Rightarrow> error + 'b) \<Rightarrow> error + 'b" where
  "and_then m f = (case m of Inl e \<Rightarrow> Inl e | Inr x \<Rightarrow> f x)"

text \<open>
  Reading \<open>obj[key]\<close> on an object literal finds the literal's own entry, or a member
  inherited from \<open>Object.prototype\<close> (a function, or for \<open>__proto__\<close> the prototype
  object itself: truthy, but carrying none of the literal's fields), or \<open>undefined\<close>.
\<close>

datatype 'a member = Own 'a | Inherited | Undefined

definition object_prototype_keys :: "string list" where
  "object_prototype_keys =
     [''constructor'', ''__defineGetter__'', ''__defineSetter__'', ''hasOwnProperty'',
      ''__lookupGetter__'', ''__lookupSetter__'', ''isPrototypeOf'',
      ''propertyIsEnumerable'', ''toString'', ''valueOf'', ''__proto__'',
      ''toLocaleString'']"

definition get_prop :: "(string \<times> 'a) list \<Rightarrow> string \<Rightarrow> 'a member" where
  "get_prop obj key =
     (case map_of obj key of
        Some v \<Rightarrow> Own v
      | None \<Rightarrow> if key \<in> set object_prototype_keys then Inherited else Undefined)"

text \<open>\<open>a || b\<close> on a property read: an own or inherited member is truthy.\<close>

definition or_else :: "'a member \<Rightarrow> 'a member \<Rightarrow> 'a member" where
  "or_else a b = (case a of Undefined \<Rightarrow> b | _ \<Rightarrow> a)"

text \<open>
  An object literal whose values are strings or \<open>null\<close> is the list of its entries in
  source order. \<open>Object_keys\<close> is \<open>Object.keys(obj)\<close>; \<open>get_field obj k\<close> is \<open>obj.k\<close>.
\<close>

definition Object_keys :: "(string \<times> 'a) list \<Rightarrow> string list" where
  "Object_keys obj = map fst obj"

definition get_field :: "(string \<times> string option) list \<Rightarrow> string \<Rightarrow> string option" where
  "get_field obj k = (case map_of obj k of Some v \<Rightarrow> v | None \<Rightarrow> None)"

text \<open>\<open>arr[i]\<close>: \<open>undefined\<close> outside the array.\<close>

definition at_index :: "'a list \<Rightarrow> int \<Rightarrow> 'a option" where
  "at_index xs i = (if 0 \<le> i \<and> i < int (length xs) then Some (xs ! nat i) else None)"

text \<open>\<open>Array.prototype.join\<close> on an array of strings.\<close>

fun join :: "string \<Rightarrow> string list \<Rightarrow> string" where
  "join sep [] = []"
| "join sep [x] = x"
| "join sep (x # y # ys) = x @ sep @ join sep (y # ys)"

definition startsWith :: "string \<Rightarrow> string \<Rightarrow> bool" where
  "startsWith s p = (take (length p) s = p)"

text \<open>The decimal rendering of a non-negative integer in a template literal.\<close>

fun decimal :: "nat \<Rightarrow> string" where
  "decimal n =
     (if n < 10 then [''0123456789'' ! n]
      else decimal (n div 10) @ [''0123456789'' ! (n mod 10)])"

declare decimal.simps [simp del]

section \<open>Preset catalog (src/utils/seasonPresets.js)\<close>

record preset =
  season :: string
  recommendedColors :: "string list"
  suggestedFormality :: string
  recommendedAccessories :: "string list"
  aesthetic :: "string list"
  description :: string

definition SEASON_PRESETS :: "(string \<times> preset) list" where
  "SEASON_PRESETS =
     [(''Spring'', \<lparr>season = ''Spring'',
         recommendedColors = [''pastel pink'', ''mint green'', ''lavender'', ''cream''],
         suggestedFormality = ''casual'',
         recommendedAccessories = [''sunglasses'', ''light scarf'', ''bracelet'', ''floral headband''],
         aesthetic = [''floral'', ''airy'', ''layered'', ''fresh''],
         description = ''Light, pastel tones with breathable fabrics''\<rparr>),
      (''Summer'', \<lparr>season = ''Summer'',
         recommendedColors = [''white'', ''bright yellow'', ''coral'', ''turquoise''],
         suggestedFormality = ''casual'',
         recommendedAccessories = [''sunglasses'', ''beach hat'', ''sandals'', ''minimalist jewelry''],
         aesthetic = [''beachy'', ''bright'', ''minimalist'', ''breezy''],
         description = ''Bright, breathable fabrics and lightweight accessories''\<rparr>),
      (''Fall'', \<lparr>season = ''Fall'',
         recommendedColors = [''rust'', ''olive'', ''burgundy'', ''mustard'', ''brown''],
         suggestedFormality = ''casual'',
         recommendedAccessories = [''scarf'', ''beanie'', ''crossbody bag'', ''ankle boots''],
         aesthetic = [''earthy'', ''layered'', ''cozy'', ''vintage''],
         description = ''Earthy tones with layered pieces and warm accessories''\<rparr>),
      (''Winter'', \<lparr>season = ''Winter'',
         recommendedColors = [''gray'', ''navy'', ''black'', ''burgundy'', ''forest green''],
         suggestedFormality = ''casual'',
         recommendedAccessories = [''scarf'', ''gloves'', ''beanie'', ''winter boots''],
         aesthetic = [''cozy'', ''layered'', ''thermal'', ''minimalist''],
         description = ''Warm, muted colors with thermal layers and protective accessories''\<rparr>)]"

text \<open>\<open>SEASON_PRESETS[seasonName] || SEASON_PRESETS.Spring\<close>\<close>

definition getSeasonPreset :: "string \<Rightarrow> preset member" where
  "getSeasonPreset seasonName =
     or_else (get_prop SEASON_PRESETS seasonName) (get_prop SEASON_PRESETS ''Spring'')"

section \<open>Deterministic style synthesizer (src/utils/mockAI.js)\<close>

definition topDescriptions :: "(string \<times> string list) list" where
  "topDescriptions =
     [(''Spring'', [''floral blouse'', ''light cardigan'', ''pastel sweater'', ''cotton tee'']),
      (''Summer'', [''white tank top'', ''crop top'', ''linen shirt'', ''bright tee'']),
      (''Fall'', [''rust sweater'', ''olive button-up'', ''denim jacket'', ''cozy hoodie'']),
      (''Winter'', [''chunky knit sweater'', ''thermal top'', ''turtleneck'', ''fleece pullover''])]"

definition topLayerDescriptions :: "(string \<times> string list) list" where
  "topLayerDescriptions =
     [(''Spring'', [''light denim jacket'', ''bomber jacket'', ''cardigan'']),
      (''Summer'', [''kimono'', ''sheer cover-up'', ''vest'']),
      (''Fall'', [''leather jacket'', ''oversized blazer'', ''wool coat'']),
      (''Winter'', [''puffer jacket'', ''parka'', ''peacoat'', ''trench coat''])]"

definition bottomDescriptions :: "(string \<times> string list) list" where
  "bottomDescriptions =
     [(''Spring'', [''light wash jeans'', ''floral skirt'', ''khaki pants'', ''midi skirt'']),
      (''Summer'', [''denim shorts'', ''white pants'', ''flowy skirt'', ''linen trousers'']),
      (''Fall'', [''dark jeans'', ''corduroy pants'', ''plaid skirt'', ''cargo pants'']),
      (''Winter'', [''black jeans'', ''wool trousers'', ''fleece-lined leggings'', ''thermal pants''])]"

definition shoesDescriptions :: "(string \<times> string list) list" where
  "shoesDescriptions =
     [(''Spring'', [''white sneakers'', ''canvas shoes'', ''loafers'', ''sandals'']),
      (''Summer'', [''slides'', ''espadrilles'', ''sandals'', ''white sneakers'']),
      (''Fall'', [''ankle boots'', ''combat boots'', ''sneakers'', ''oxfords'']),
      (''Winter'', [''winter boots'', ''Chelsea boots'', ''insulated sneakers'', ''hiking boots''])]"

definition aestheticOptions :: "(string \<times> string list) list" where
  "aestheticOptions =
     [(''casual'', [''streetwear'', ''Y2K'', ''casual'', ''everyday'', ''relaxed'']),
      (''semi-formal'', [''smart casual'', ''chic'', ''polished'', ''refined'']),
      (''business-casual'', [''professional'', ''corporate'', ''minimalist'', ''classic'']),
      (''sports'', [''athletic'', ''sporty'', ''performance'', ''active''])]"

text \<open>
  \<open>getRandomItem = (arr) => arr[Math.floor(Math.random() * arr.length)]\<close>.
  The index expression is the environment's: \<open>pick k\<close> is the value of
  \<open>Math.floor(Math.random() * k)\<close> for the draw of this call. \<open>Math.random()\<close> returns
  a double in \<open>[0, 1)\<close> and the product is rounded to a double, which stays below \<open>k\<close>;
  so the contract of the index is \<open>pick k < k\<close> for \<open>0 < k\<close>. On \<open>undefined\<close> the read
  of \<open>arr.length\<close> throws; an inherited member has no indexed elements, so the read
  yields \<open>undefined\<close>.
\<close>

definition getRandomItem :: "'a list member \<Rightarrow> (nat \<Rightarrow> nat) \<Rightarrow> error + 'a option" where
  "getRandomItem arr pick =
     (case arr of
        Undefined \<Rightarrow> Inl (TypeError ''Cannot read properties of undefined (reading 'length')'')
      | Inherited \<Rightarrow> Inr None
      | Own xs \<Rightarrow> Inr (at_index xs (int (pick (length xs)))))"

text \<open>
  \<open>url ? getRandomItem(table[season]) : null\<close>. The successive draws are the stream
  \<open>rnd\<close>: \<open>rnd n k\<close> is \<open>Math.floor(Math.random() * k)\<close> at the \<open>n\<close>-th call of
  \<open>Math.random()\<close>; \<open>n\<close> counts the draws consumed so far, and a draw is consumed only
  when the slot is populated.
\<close>

definition describe_slot ::
  "string option \<Rightarrow> (string \<times> string list) list \<Rightarrow> string \<Rightarrow> (nat \<Rightarrow> nat \<Rightarrow> nat) \<Rightarrow> nat
     \<Rightarrow> error + (string option \<times> nat)" where
  "describe_slot url table seasonKey rnd n =
     (if truthy url
      then (case getRandomItem (get_prop table seasonKey) (rnd n) of
              Inl e \<Rightarrow> Inl e
            | Inr v \<Rightarrow> Inr (v, Suc n))
      else Inr (None, n))"

text \<open>\<open>buildDescription({ top, topLayer, bottom, shoes, accessories })\<close>\<close>

definition buildDescription ::
  "string option \<Rightarrow> string option \<Rightarrow> string option \<Rightarrow> string option \<Rightarrow> string list \<Rightarrow> string" where
  "buildDescription topDesc topLayerDesc bottomDesc shoesDesc accessoriesList =
     join '', ''
       ((if truthy topDesc then [the topDesc] else []) @
        (if truthy topLayerDesc then [''with '' @ the topLayerDesc] else []) @
        (if truthy bottomDesc then [the bottomDesc] else []) @
        (if truthy shoesDesc then [the shoesDesc] else []) @
        (if length accessoriesList > 0
         then [''accessorized with '' @ join '', '' accessoriesList] else []))"

text \<open>
  The fixed preview image: an SVG data URL. The flame emoji of the source is written as
  its four UTF-8 bytes.
\<close>

definition mock_ai_image_url :: string where
  "mock_ai_image_url =
     ''data:image/svg+xml,%3Csvg xmlns='http://www.w3.org/2000/svg' width='400' height='600' viewBox='0 0 400 600'%3E%3Crect fill='%23334155' width='400' height='600'/%3E%3Ctext x='50%25' y='45%25' font-family='Arial, sans-serif' font-size='24' fill='%238B5CF6' text-anchor='middle' dominant-baseline='middle'%3E''
     @ [CHR 0xF0, CHR 0x9F, CHR 0x94, CHR 0xA5]
     @ '' AI Generated%3C/text%3E%3Ctext x='50%25' y='55%25' font-family='Arial, sans-serif' font-size='18' fill='%2394A3B8' text-anchor='middle' dominant-baseline='middle'%3EOutfit Preview%3C/text%3E%3C/svg%3E''"

text \<open>
  The analysis record: the synthesizer's return value and the wire shape of the
  \<open>analyze-fit\<close> response. \<open>colors\<close> is an object literal: its keys in order, each with a
  string or \<open>null\<close>. The third aesthetic tag is \<open>undefined\<close> when the draw falls outside
  the candidate list, hence the element type.
\<close>

record analysis =
  top' :: "string option"
  topLayer :: "string option"
  bottom :: "string option"
  shoes :: "string option"
  accessories :: "string list"
  aesthetic :: "string option list"
  colors :: "(string \<times> string option) list"
  ai_description :: "string option"
  accessories_description :: "string option"
  accessories_tags :: "string list"
  ai_image_url :: "string option"
  season :: "string option"
  formality :: "string option"
  confidence :: rat
  timestamp :: string

text \<open>
  \<open>generateMockAnalysis({ topUrl, topLayerUrl, bottomUrl, shoesUrl, accessoriesUrl,
  season = 'Fall', formality = 'casual' })\<close>. An \<open>undefined\<close> \<open>season\<close> or
  \<open>formality\<close> takes the default; \<open>null\<close> does not: it is used as the key "null" and
  handed back as \<open>null\<close>. \<open>now\<close> is \<open>new Date().toISOString()\<close>. Reading
  \<open>.recommendedAccessories\<close> or \<open>.aesthetic\<close> of an inherited member gives
  \<open>undefined\<close>, on which \<open>.slice\<close> throws.
\<close>

definition generateMockAnalysis ::
  "string option \<Rightarrow> string option \<Rightarrow> string option \<Rightarrow> string option \<Rightarrow> string option
     \<Rightarrow> string arg \<Rightarrow> string arg \<Rightarrow> (nat \<Rightarrow> nat \<Rightarrow> nat) \<Rightarrow> string \<Rightarrow> error + analysis" where
  "generateMockAnalysis topUrl topLayerUrl bottomUrl shoesUrl accessoriesUrl season_arg formality_arg rnd now =
     (let seasonVal = default_to ''Fall'' season_arg;
          formalityVal = default_to ''casual'' formality_arg;
          seasonName = key_of seasonVal;
          formalityName = key_of formalityVal;
          seasonPreset = getSeasonPreset seasonName
      in
      and_then (describe_slot topUrl topDescriptions seasonName rnd 0) (\<lambda>(topDesc, n1).
      and_then (describe_slot topLayerUrl topLayerDescriptions seasonName rnd n1) (\<lambda>(topLayerDesc, n2).
      and_then (describe_slot bottomUrl bottomDescriptions seasonName rnd n2) (\<lambda>(bottomDesc, n3).
      and_then (describe_slot shoesUrl shoesDescriptions seasonName rnd n3) (\<lambda>(shoesDesc, n4).
      and_then (case seasonPreset of
                  Own p \<Rightarrow> Inr p
                | _ \<Rightarrow> Inl (TypeError ''Cannot read properties of undefined (reading 'slice')'')) (\<lambda>p.
      let accessoriesList = (if truthy accessoriesUrl then take 2 (recommendedAccessories p) else []);
          baseAesthetic = or_else (get_prop aestheticOptions formalityName) (get_prop aestheticOptions ''casual'')
      in
      and_then (getRandomItem baseAesthetic (rnd n4)) (\<lambda>tag.
          Inr \<lparr>top' = topDesc,
               topLayer = topLayerDesc,
               bottom = bottomDesc,
               shoes = shoesDesc,
               accessories = accessoriesList,
               aesthetic = map Some (take 2 (preset.aesthetic p)) @ [tag],
               colors =
                 [(''top'', if truthy topDesc then at_index (recommendedColors p) 0 else None),
                  (''topLayer'', if truthy topLayerDesc then at_index (recommendedColors p) 1 else None),
                  (''bottom'', if truthy bottomDesc then at_index (recommendedColors p) 2 else None),
                  (''shoes'', if truthy shoesDesc
                             then (if truthy (at_index (recommendedColors p) 3)
                                   then at_index (recommendedColors p) 3 else Some ''neutral'')
                             else None),
                  (''accessories'', if length accessoriesList > 0 then Some ''mixed metals'' else None)],
               ai_description = Some (buildDescription topDesc topLayerDesc bottomDesc shoesDesc accessoriesList),
               accessories_description =
                 (if length accessoriesList > 0
                  then Some (''Accessorized with '' @ join '' and '' accessoriesList) else None),
               accessories_tags = accessoriesList,
               ai_image_url = Some mock_ai_image_url,
               season = nullable seasonVal,
               formality = nullable formalityVal,
               confidence = 85 / 100,
               timestamp = now\<rparr>)))))))"

section \<open>Tiered operation executor (src/services/outfitAPI.js)\<close>

subsection \<open>The Gateway and the Local Durable Cache\<close>

text \<open>
  An awaited Gateway call either raises (the promise rejects, or the \<open>error\<close> member of
  the \<open>{ data, error }\<close> answer is set and the program throws it) or returns its
  \<open>data\<close>, which may be \<open>null\<close>.
\<close>

datatype 'a reply = Raised error | Returned 'a

text \<open>A \<open>File\<close>: its name, as UTF-16 code units.\<close>

record File =
  name :: "nat list"

text \<open>The payload of \<open>analyzeFit\<close>, and the first fields of the payload of \<open>saveFit\<close>.\<close>

record fit_payload =
  session_id :: string
  top_url :: "string option"
  top_layer_url :: "string option"
  bottom_url :: "string option"
  shoes_url :: "string option"
  accessories_url :: "string option"
  season :: "string arg"
  formality :: "string arg"

record save_payload = fit_payload +
  ai_description :: "string option"
  ai_image_url :: "string option"
  aesthetic :: "string option list option"
  colors :: "(string \<times> string option) list option"
  accessories_description :: "string option"
  accessories_tags :: "string list option"

text \<open>
  \<open>outfitData\<close>, the row that \<open>saveFit\<close> builds, and \<open>outfit\<close>, a persisted record:
  \<open>{ ...outfitData, id }\<close>. \<open>created_at\<close> is an ISO-8601 UTC string; such strings of
  equal length order lexicographically as their instants do.
\<close>

record outfit_data =
  session_id :: string
  top_url :: "string option"
  top_layer_url :: "string option"
  bottom_url :: "string option"
  shoes_url :: "string option"
  accessories_url :: "string option"
  ai_description :: "string option"
  ai_image_url :: "string option"
  season :: "string option"
  formality :: "string option"
  aesthetic :: "string option list"
  colors :: "(string \<times> string option) list"
  accessories_description :: "string option"
  accessories_tags :: "string list"
  saved :: bool
  created_at :: string

record outfit = outfit_data +
  id' :: string

text \<open>
  The Gateway is an injected capability: one handler for each call the executor makes,
  each taking and returning the state \<open>'b\<close> of the remote side. A handler is the only
  access to that state, so an executor run that returns the state it was given, for
  every Gateway, has made no Gateway call.
  \<^item> \<open>invoke_analyze_fit\<close>: \<open>supabase.functions.invoke('analyze-fit', { body })\<close>
  \<^item> \<open>invoke_save_fit\<close>: \<open>supabase.functions.invoke('save-fit', { body })\<close>
  \<^item> \<open>outfits_insert\<close>: \<open>supabase.from('outfits').insert(row).select().single()\<close>
  \<^item> \<open>invoke_getSavedFits\<close>: \<open>supabase.functions.invoke('getSavedFits', { body })\<close>
  \<^item> \<open>outfits_select\<close>: \<open>supabase.from('outfits').select('*').eq('session_id', s)
     .eq('saved', true).order('created_at', { ascending: false })\<close>
  \<^item> \<open>outfits_delete\<close>: \<open>supabase.from('outfits').delete().eq('id', i)\<close>
  \<^item> \<open>storage_upload\<close>: \<open>supabase.storage.from('outfit-images').upload(path, file, ...)\<close>
  \<^item> \<open>getPublicUrl\<close>: \<open>supabase.storage.from('outfit-images').getPublicUrl(path)\<close>,
     a local computation.
\<close>

record 'b gateway =
  invoke_analyze_fit :: "fit_payload \<Rightarrow> 'b \<Rightarrow> analysis option reply \<times> 'b"
  invoke_save_fit :: "outfit_data \<Rightarrow> 'b \<Rightarrow> outfit option reply \<times> 'b"
  outfits_insert :: "outfit_data \<Rightarrow> 'b \<Rightarrow> outfit option reply \<times> 'b"
  invoke_getSavedFits :: "string \<Rightarrow> 'b \<Rightarrow> outfit list option reply \<times> 'b"
  outfits_select :: "string \<Rightarrow> 'b \<Rightarrow> outfit list option reply \<times> 'b"
  outfits_delete :: "string \<Rightarrow> 'b \<Rightarrow> unit reply \<times> 'b"
  storage_upload :: "string \<Rightarrow> File \<Rightarrow> 'b \<Rightarrow> unit reply \<times> 'b"
  getPublicUrl :: "string \<Rightarrow> string"

text \<open>
  The Local Durable Cache is \<open>localStorage\<close>, of which the program uses the entry
  \<open>saved_outfits\<close>.
  \<^item> Reading: \<open>JSON.parse(localStorage.getItem('saved_outfits') || '[]')\<close>, followed by
    an array method on the result. The entry is absent (the empty array is read), or
    holds an array of records, or reading throws: \<open>getItem\<close> is refused, the text does
    not parse, or it parses to something that is not an array and the method call fails.
    The program itself writes arrays of records only; an array with other elements is
    outside this model.
  \<^item> Writing: \<open>localStorage.setItem('saved_outfits', JSON.stringify(xs))\<close> stores the
    array, or throws (quota exceeded, storage refused) and stores nothing.
\<close>

datatype stored = Absent | Items "outfit list" | Unreadable error

record cache =
  saved_outfits :: stored
  setItem_error :: "error option"

definition read_cache :: "cache \<Rightarrow> error + outfit list" where
  "read_cache ls =
     (case saved_outfits ls of
        Absent \<Rightarrow> Inr []
      | Items xs \<Rightarrow> Inr xs
      | Unreadable e \<Rightarrow> Inl e)"

definition write_cache :: "cache \<Rightarrow> outfit list \<Rightarrow> error + cache" where
  "write_cache ls xs =
     (case setItem_error ls of
        Some e \<Rightarrow> Inl e
      | None \<Rightarrow> Inr (ls\<lparr>saved_outfits := Items xs\<rparr>))"

subsection \<open>upload\<close>

text \<open>
  \<open>file.name.replace(/[^a-zA-Z0-9.-]/g, '_')\<close>: the pattern has no \<open>u\<close> flag, so it
  replaces code unit by code unit. A code unit that is kept is ASCII, so the result is
  an ASCII string.
\<close>

definition safe_unit :: "nat \<Rightarrow> bool" where
  "safe_unit k =
     ((97 \<le> k \<and> k \<le> 122) \<or> (65 \<le> k \<and> k \<le> 90) \<or> (48 \<le> k \<and> k \<le> 57)
      \<or> k = 46 \<or> k = 45)"

definition sanitize :: "nat list \<Rightarrow> string" where
  "sanitize units = map (\<lambda>k. if safe_unit k then char_of k else CHR ''_'') units"

text \<open>
  \<open>uploadFile(file, category, sessionId)\<close>; \<open>now\<close> is \<open>Date.now()\<close>. The \<open>catch\<close>
  block logs and re-throws.
\<close>

definition uploadFile ::
  "'b gateway \<Rightarrow> File option \<Rightarrow> string \<Rightarrow> string \<Rightarrow> nat \<Rightarrow> 'b \<Rightarrow> (error + string) \<times> 'b" where
  "uploadFile gw file_arg category sessionId now b =
     (case file_arg of
        None \<Rightarrow> (Inl (Error ''No file provided''), b)
      | Some f \<Rightarrow>
          (let fileName = decimal now @ ''_'' @ sanitize (name f);
               filePath = sessionId @ ''/originals/'' @ category @ ''_'' @ fileName
           in case storage_upload gw filePath f b of
                (Raised e, b1) \<Rightarrow> (Inl e, b1)
              | (Returned u, b1) \<Rightarrow> (Inr (getPublicUrl gw filePath), b1)))"

subsection \<open>analyze\<close>

text \<open>
  \<open>analyzeFit(payload)\<close>; \<open>rnd\<close> and \<open>now\<close> are the synthesizer's random stream and
  clock. \<open>data && (data.top || data.ai_description)\<close> accepts the Gateway's answer;
  a raise, a \<open>null\<close> answer and an answer without either field all reach the
  synthesizer, whose exception the outer \<open>catch\<close> re-throws. The 1500 ms delay before
  the synthesizer has no effect on the result.
\<close>

definition analyzeFit ::
  "'b gateway \<Rightarrow> fit_payload \<Rightarrow> (nat \<Rightarrow> nat \<Rightarrow> nat) \<Rightarrow> string \<Rightarrow> 'b \<Rightarrow> (error + analysis) \<times> 'b" where
  "analyzeFit gw payload rnd now b =
     (let (r, b1) = invoke_analyze_fit gw payload b;
          mockResult = generateMockAnalysis
             (fit_payload.top_url payload) (fit_payload.top_layer_url payload)
             (fit_payload.bottom_url payload) (fit_payload.shoes_url payload)
             (fit_payload.accessories_url payload)
             (fit_payload.season payload) (fit_payload.formality payload) rnd now
      in case r of
           Returned (Some d) \<Rightarrow>
             if truthy (top' d) \<or> truthy (analysis.ai_description d)
             then (Inr d, b1) else (mockResult, b1)
         | _ \<Rightarrow> (mockResult, b1))"

subsection \<open>save\<close>

text \<open>The row built at the top of \<open>saveFit\<close>; \<open>now_iso\<close> is \<open>new Date().toISOString()\<close>.\<close>

definition outfitData_of :: "save_payload \<Rightarrow> string \<Rightarrow> outfit_data" where
  "outfitData_of payload now_iso =
     \<lparr>session_id = fit_payload.session_id payload,
      top_url = fit_payload.top_url payload,
      top_layer_url = fit_payload.top_layer_url payload,
      bottom_url = fit_payload.bottom_url payload,
      shoes_url = fit_payload.shoes_url payload,
      accessories_url = fit_payload.accessories_url payload,
      ai_description = save_payload.ai_description payload,
      ai_image_url = save_payload.ai_image_url payload,
      season = nullable (fit_payload.season payload),
      formality = nullable (fit_payload.formality payload),
      aesthetic = (case save_payload.aesthetic payload of None \<Rightarrow> [] | Some a \<Rightarrow> a),
      colors = (case save_payload.colors payload of None \<Rightarrow> [] | Some c \<Rightarrow> c),
      accessories_description = save_payload.accessories_description payload,
      accessories_tags = (case save_payload.accessories_tags payload of None \<Rightarrow> [] | Some t \<Rightarrow> t),
      saved = True,
      created_at = now_iso\<rparr>"

text \<open>\<open>{ ...outfitData, id: `local_${Date.now()}` }\<close>\<close>

definition localOutfit_of :: "outfit_data \<Rightarrow> nat \<Rightarrow> outfit" where
  "localOutfit_of outfitData now_ms =
     outfit_data.extend outfitData (outfit.fields (''local_'' @ decimal now_ms))"

text \<open>
  \<open>saveFit(payload)\<close>. A tier falls through when its call raises or when its \<open>data\<close> is
  \<open>null\<close> (the log line reads \<open>data.id\<close> inside the \<open>try\<close>). The local tier runs
  inside the outer \<open>try\<close> only: when reading or writing the cache throws, the outer
  \<open>catch\<close> logs and re-throws, and \<open>saveFit\<close> rejects.
\<close>

definition saveFit ::
  "'b gateway \<Rightarrow> save_payload \<Rightarrow> string \<Rightarrow> nat \<Rightarrow> 'b \<Rightarrow> cache \<Rightarrow> (error + outfit) \<times> 'b \<times> cache" where
  "saveFit gw payload now_iso now_ms b ls =
     (let outfitData = outfitData_of payload now_iso
      in case invoke_save_fit gw outfitData b of
           (Returned (Some d), b1) \<Rightarrow> (Inr d, b1, ls)
         | (_, b1) \<Rightarrow>
             (case outfits_insert gw outfitData b1 of
                (Returned (Some d), b2) \<Rightarrow> (Inr d, b2, ls)
              | (_, b2) \<Rightarrow>
                  (case read_cache ls of
                     Inl e \<Rightarrow> (Inl e, b2, ls)
                   | Inr localOutfits \<Rightarrow>
                       (let localOutfit = localOutfit_of outfitData now_ms
                        in case write_cache ls (localOutfits @ [localOutfit]) of
                             Inl e \<Rightarrow> (Inl e, b2, ls)
                           | Inr ls1 \<Rightarrow> (Inr localOutfit, b2, ls1)))))"

subsection \<open>fetchAll\<close>

text \<open>
  \<open>getSavedFits(sessionId)\<close>. A tier falls through when its call raises or when its
  \<open>data\<close> is \<open>null\<close> (the log line reads \<open>data.length\<close> inside the \<open>try\<close>). When
  reading the cache throws, the outer \<open>catch\<close> logs and returns the empty array.
\<close>

definition getSavedFits ::
  "'b gateway \<Rightarrow> string \<Rightarrow> 'b \<Rightarrow> cache \<Rightarrow> outfit list \<times> 'b" where
  "getSavedFits gw sessionId b ls =
     (case invoke_getSavedFits gw sessionId b of
        (Returned (Some d), b1) \<Rightarrow> (d, b1)
      | (_, b1) \<Rightarrow>
          (case outfits_select gw sessionId b1 of
             (Returned (Some d), b2) \<Rightarrow> (d, b2)
           | (_, b2) \<Rightarrow>
               (case read_cache ls of
                  Inl e \<Rightarrow> ([], b2)
                | Inr localOutfits \<Rightarrow>
                    (let sessionOutfits =
                           filter (\<lambda>outfit. outfit_data.session_id outfit = sessionId) localOutfits
                     in (sessionOutfits, b2)))))"

subsection \<open>delete\<close>

text \<open>
  \<open>deleteOutfit(outfitId)\<close>; the \<open>catch\<close> block logs and returns \<open>false\<close>, also when
  reading or writing the cache throws.
\<close>

definition deleteOutfit ::
  "'b gateway \<Rightarrow> string \<Rightarrow> 'b \<Rightarrow> cache \<Rightarrow> bool \<times> 'b \<times> cache" where
  "deleteOutfit gw outfitId b ls =
     (if \<not> startsWith outfitId ''local_''
      then (case outfits_delete gw outfitId b of
              (Raised e, b1) \<Rightarrow> (False, b1, ls)
            | (Returned u, b1) \<Rightarrow> (True, b1, ls))
      else (case read_cache ls of
              Inl e \<Rightarrow> (False, b, ls)
            | Inr localOutfits \<Rightarrow>
                (let updatedOutfits = filter (\<lambda>outfit. id' outfit \<noteq> outfitId) localOutfits
                 in case write_cache ls updatedOutfits of
                      Inl e \<Rightarrow> (False, b, ls)
                    | Inr ls1 \<Rightarrow> (True, b, ls1))))"

section \<open>Environments used to exercise the executor\<close>

text \<open>
  A random source whose \<open>Math.random()\<close> returns 0.5 at every call: the product
  \<open>0.5 * k\<close> is exact, and its floor is \<open>k div 2\<close>.
\<close>

definition half_draws :: "nat \<Rightarrow> nat \<Rightarrow> nat" where
  "half_draws n k = k div 2"

text \<open>A cache that is empty and writable, and a cache whose quota is exhausted.\<close>

definition empty_cache :: cache where
  "empty_cache = \<lparr>saved_outfits = Absent, setItem_error = None\<rparr>"

definition quota_exceeded :: "cache \<Rightarrow> cache" where
  "quota_exceeded ls = ls\<lparr>setItem_error := Some (DOMException ''QuotaExceededError'')\<rparr>"

text \<open>
  A reference Gateway, the least that the executor's own calls presume of the remote
  side: no edge function is deployed (every \<open>functions.invoke\<close> raises), and the
  \<open>outfits\<close> table is either reachable or not. When reachable, \<open>insert\<close> appends the row
  under an id of the table's own supply (never \<open>local_\<close>-prefixed), \<open>select\<close> returns the
  saved rows of the session by descending \<open>created_at\<close>, \<open>delete\<close> removes the rows of
  the given id, and the storage bucket accepts every upload.
\<close>

record store =
  reachable :: bool
  rows :: "outfit list"
  row_ids :: nat

definition direct_store :: "store gateway" where
  "direct_store =
     \<lparr>invoke_analyze_fit = (\<lambda>payload s. (Raised (Error ''Failed to send a request to the Edge Function''), s)),
      invoke_save_fit = (\<lambda>row s. (Raised (Error ''Failed to send a request to the Edge Function''), s)),
      outfits_insert = (\<lambda>row s.
         if reachable s
         then (let r = outfit_data.extend row (outfit.fields (''row_'' @ decimal (row_ids s)))
               in (Returned (Some r), s\<lparr>rows := rows s @ [r], row_ids := Suc (row_ids s)\<rparr>))
         else (Raised (Error ''Failed to fetch''), s)),
      invoke_getSavedFits = (\<lambda>sessionId s. (Raised (Error ''Failed to send a request to the Edge Function''), s)),
      outfits_select = (\<lambda>sessionId s.
         if reachable s
         then (Returned (Some (rev (sort_key created_at
                 (filter (\<lambda>r. outfit_data.session_id r = sessionId \<and> saved r) (rows s))))), s)
         else (Raised (Error ''Failed to fetch''), s)),
      outfits_delete = (\<lambda>outfitId s.
         if reachable s
         then (Returned (), s\<lparr>rows := filter (\<lambda>r. id' r \<noteq> outfitId) (rows s)\<rparr>)
         else (Raised (Error ''Failed to fetch''), s)),
      storage_upload = (\<lambda>filePath f s.
         if reachable s then (Returned (), s) else (Raised (Error ''Failed to fetch''), s)),
      getPublicUrl = (\<lambda>filePath.
         ''https://demo.supabase.co/storage/v1/object/public/outfit-images/'' @ filePath)\<rparr>"





text \<open>The remote side going down and coming back between two operations.\<close>

definition outage :: "store \<Rightarrow> store" where
  "outage s = s\<lparr>reachable := False\<rparr>"


definition empty_store :: store where
  "empty_store = \<lparr>reachable = True, rows = [], row_ids = 0\<rparr>"

text \<open>
  A tier of \<open>saveFit\<close> or \<open>getSavedFits\<close> has failed when its call raised or answered
  \<open>null\<close>.
\<close>

definition tier_failed :: "'a option reply \<Rightarrow> bool" where
  "tier_failed r = (case r of Returned (Some d) \<Rightarrow> False | _ \<Rightarrow> True)"

text \<open>Both Gateway tiers of \<open>saveFit\<close> fail for the row, from remote state \<open>b\<close>.\<close>

definition save_tiers_fail :: "'b gateway \<Rightarrow> outfit_data \<Rightarrow> 'b \<Rightarrow> bool" where
  "save_tiers_fail gw row b =
     (tier_failed (fst (invoke_save_fit gw row b)) \<and>
      tier_failed (fst (outfits_insert gw row (snd (invoke_save_fit gw row b)))))"

text \<open>Both Gateway tiers of \<open>getSavedFits\<close> fail for the session, from remote state \<open>b\<close>.\<close>

definition fetch_tiers_fail :: "'b gateway \<Rightarrow> string \<Rightarrow> 'b \<Rightarrow> bool" where
  "fetch_tiers_fail gw sessionId b =
     (tier_failed (fst (invoke_getSavedFits gw sessionId b)) \<and>
      tier_failed (fst (outfits_select gw sessionId (snd (invoke_getSavedFits gw sessionId b)))))"



text \<open>A payload as \<open>handleSave\<close> builds it from a synthesized Fall / casual analysis.\<close>

definition sample_payload :: "string \<Rightarrow> save_payload" where
  "sample_payload sessionId =
     \<lparr>fit_payload.session_id = sessionId,
      fit_payload.top_url = None, fit_payload.top_layer_url = None,
      fit_payload.bottom_url = Some ''https://img/bottom.png'',
      fit_payload.shoes_url = None, fit_payload.accessories_url = None,
      fit_payload.season = Given ''Fall'', fit_payload.formality = Given ''casual'',
      save_payload.ai_description = Some ''plaid skirt'',
      save_payload.ai_image_url = Some mock_ai_image_url,
      save_payload.aesthetic = Some [Some ''earthy'', Some ''layered'', Some ''casual''],
      save_payload.colors = Some [(''top'', None), (''topLayer'', None), (''bottom'', Some ''burgundy''),
                     (''shoes'', None), (''accessories'', None)],
      save_payload.accessories_description = None,
      save_payload.accessories_tags = Some []\<rparr>"

text \<open>An \<open>analyze-fit\<close> answer with the given \<open>top\<close> and \<open>ai_description\<close> and nothing else.\<close>

definition answer_with :: "string option \<Rightarrow> string option \<Rightarrow> analysis" where
  "answer_with topDesc summary =
     \<lparr>top' = topDesc, topLayer = None, bottom = None, shoes = None, accessories = [],
      analysis.aesthetic = [], analysis.colors = [], analysis.ai_description = summary,
      analysis.accessories_description = None, analysis.accessories_tags = [],
      analysis.ai_image_url = None, analysis.season = None, analysis.formality = None,
      confidence = 0, timestamp = ''2025-01-01T00:00:00.000Z''\<rparr>"

text \<open>The reference Gateway with an \<open>analyze-fit\<close> function that answers \<open>d\<close>.\<close>

definition analyze_fit_deployed :: "analysis option \<Rightarrow> store gateway" where
  "analyze_fit_deployed d = direct_store\<lparr>invoke_analyze_fit := (\<lambda>payload s. (Returned d, s))\<rparr>"

text \<open>An \<open>analyzeFit\<close> payload as \<open>handleAnalyze\<close> builds it: Fall, casual, bottom only.\<close>

definition sample_fit_payload :: "string \<Rightarrow> fit_payload" where
  "sample_fit_payload sessionId =
     \<lparr>fit_payload.session_id = sessionId,
      fit_payload.top_url = None, fit_payload.top_layer_url = None,
      fit_payload.bottom_url = Some ''https://img/bottom.png'',
      fit_payload.shoes_url = None, fit_payload.accessories_url = None,
      fit_payload.season = Given ''Fall'', fit_payload.formality = Given ''casual''\<rparr>"

section \<open>Properties of the synthesizer\<close>

subsection \<open>Auxiliary facts\<close>

lemma not_truthy_None: "\<not> truthy None"
  by (simp add: truthy_def)

lemma truthy_Some: "truthy (Some s) = (s \<noteq> [])"
  by (simp add: truthy_def)

lemma given_key: "key_of (default_to d (Given s)) = s"
  by (simp add: key_of_def default_to_def)

lemma given_nullable: "nullable (default_to d (Given s)) = Some s"
  by (simp add: nullable_def default_to_def)

text \<open>An index within its contract selects an element of the array.\<close>

lemma getRandomItem_in_range:
  assumes "pick (length xs) < length xs"
  shows "\<exists>x \<in> set xs. getRandomItem (Own xs) pick = Inr (Some x)"
proof -
  have "xs ! pick (length xs) \<in> set xs" using assms by simp
  moreover have "getRandomItem (Own xs) pick = Inr (Some (xs ! pick (length xs)))"
    using assms by (simp add: getRandomItem_def at_index_def)
  ultimately show ?thesis by blast
qed

lemma contract_nonempty:
  assumes "\<forall>n k. 0 < k \<longrightarrow> rnd n k < k" "xs \<noteq> []"
  shows "rnd n (length xs) < length xs"
proof -
  have "0 < length xs" using assms(2) by simp
  then show ?thesis using assms(1) by blast
qed

lemma describe_slot_unpopulated:
  "\<not> truthy url \<Longrightarrow> describe_slot url table s rnd n = Inr (None, n)"
  by (simp add: describe_slot_def)

lemma describe_slot_populated:
  assumes "truthy url" "get_prop table s = Own xs" "rnd n (length xs) < length xs"
  shows "\<exists>x \<in> set xs. describe_slot url table s rnd n = Inr (Some x, Suc n)"
  using getRandomItem_in_range[of "rnd n" xs] assms
  by (auto simp: describe_slot_def)

lemma fall_preset:
  "getSeasonPreset ''Fall'' = Own \<lparr>preset.season = ''Fall'',
         recommendedColors = [''rust'', ''olive'', ''burgundy'', ''mustard'', ''brown''],
         suggestedFormality = ''casual'',
         recommendedAccessories = [''scarf'', ''beanie'', ''crossbody bag'', ''ankle boots''],
         aesthetic = [''earthy'', ''layered'', ''cozy'', ''vintage''],
         description = ''Earthy tones with layered pieces and warm accessories''\<rparr>"
  by (simp add: getSeasonPreset_def get_prop_def SEASON_PRESETS_def or_else_def)

lemma fall_bottoms:
  "get_prop bottomDescriptions ''Fall'' =
     Own [''dark jeans'', ''corduroy pants'', ''plaid skirt'', ''cargo pants'']"
  by (simp add: get_prop_def bottomDescriptions_def)

lemma casual_tags:
  "or_else (get_prop aestheticOptions ''casual'') (get_prop aestheticOptions ''casual'')
     = Own [''streetwear'', ''Y2K'', ''casual'', ''everyday'', ''relaxed'']"
  by (simp add: get_prop_def aestheticOptions_def or_else_def)

lemma valid_season_table:
  assumes "s \<in> set [''Spring'', ''Summer'', ''Fall'', ''Winter'']"
    and "table \<in> {topDescriptions, topLayerDescriptions, bottomDescriptions, shoesDescriptions}"
  shows "\<exists>xs. get_prop table s = Own xs \<and> xs \<noteq> [] \<and> [] \<notin> set xs"
  using assms
  by (auto simp: get_prop_def topDescriptions_def topLayerDescriptions_def bottomDescriptions_def
      shoesDescriptions_def)

lemma valid_season_preset:
  assumes "s \<in> set [''Spring'', ''Summer'', ''Fall'', ''Winter'']"
  shows "\<exists>p. getSeasonPreset s = Own p \<and> 4 \<le> length (recommendedColors p)
            \<and> [] \<notin> set (recommendedColors p) \<and> take 2 (recommendedAccessories p) \<noteq> []
            \<and> length (take 2 (preset.aesthetic p)) = 2"
  using assms
  by (auto simp: getSeasonPreset_def get_prop_def or_else_def SEASON_PRESETS_def)

lemma valid_formality_tags:
  assumes "f \<in> set [''casual'', ''semi-formal'', ''business-casual'', ''sports'']"
  shows "\<exists>ys. or_else (get_prop aestheticOptions f) (get_prop aestheticOptions ''casual'') = Own ys \<and> ys \<noteq> []"
  using assms by (auto simp: get_prop_def or_else_def aestheticOptions_def)

lemma describe_slot_valid:
  assumes "get_prop table s = Own xs" "xs \<noteq> []" "[] \<notin> set xs"
    and "\<forall>n k. 0 < k \<longrightarrow> rnd n k < k"
  shows "\<exists>v n'. describe_slot url table s rnd n = Inr (v, n')
           \<and> truthy v = truthy url \<and> (\<not> truthy url \<longrightarrow> v = None)"
proof (cases "truthy url")
  case True
  have "rnd n (length xs) < length xs" by (rule contract_nonempty[OF assms(4) assms(2)])
  then obtain x where "x \<in> set xs" "describe_slot url table s rnd n = Inr (Some x, Suc n)"
    using describe_slot_populated[of url table s xs rnd n] True assms(1) by blast
  moreover have "x \<noteq> []" using \<open>x \<in> set xs\<close> assms(3) by auto
  ultimately show ?thesis using True by (auto simp: truthy_def)
next
  case False
  then show ?thesis by (simp add: describe_slot_unpopulated truthy_def)
qed

subsection \<open>The Fall / casual / bottom-only scenario\<close>

text \<open>
  Claim C6. For season "Fall", formality "casual" and only the bottom slot populated,
  the synthesizer returns a record whose top, topLayer and shoes descriptions are absent,
  whose bottom is one of the four Fall bottom candidates, whose \<open>colors.bottom\<close> is
  'burgundy' (the third Fall palette color), whose accessories tag list is empty, and
  whose aesthetic has exactly three entries: the first two Fall tags and one casual tag.
  The draws are taken within the contract of \<open>Math.floor(Math.random() * k)\<close>.
\<close>

theorem C6_fall_casual_bottom_only:
  assumes draws: "\<forall>n k. 0 < k \<longrightarrow> rnd n k < k" and populated: "truthy bottomUrl"
  shows "\<exists>a. generateMockAnalysis None None bottomUrl None None (Given ''Fall'') (Given ''casual'') rnd now = Inr a
           \<and> top' a = None \<and> topLayer a = None \<and> shoes a = None
           \<and> (\<exists>d \<in> set [''dark jeans'', ''corduroy pants'', ''plaid skirt'', ''cargo pants'']. bottom a = Some d)
           \<and> map_of (analysis.colors a) ''bottom'' = Some (Some ''burgundy'')
           \<and> analysis.accessories_tags a = []
           \<and> length (analysis.aesthetic a) = 3
           \<and> take 2 (analysis.aesthetic a) = [Some ''earthy'', Some ''layered'']
           \<and> (\<exists>t \<in> set [''streetwear'', ''Y2K'', ''casual'', ''everyday'', ''relaxed''].
                 analysis.aesthetic a ! 2 = Some t)"
proof -
  have "rnd 0 (length [''dark jeans'', ''corduroy pants'', ''plaid skirt'', ''cargo pants''])
          < length [''dark jeans'', ''corduroy pants'', ''plaid skirt'', ''cargo pants'']"
    by (rule contract_nonempty[OF draws]) simp
  then obtain d where d: "d \<in> set [''dark jeans'', ''corduroy pants'', ''plaid skirt'', ''cargo pants'']"
    and slot: "describe_slot bottomUrl bottomDescriptions ''Fall'' rnd 0 = Inr (Some d, Suc 0)"
    using describe_slot_populated[OF populated fall_bottoms, of rnd 0] by blast
  have "rnd (Suc 0) (length [''streetwear'', ''Y2K'', ''casual'', ''everyday'', ''relaxed''])
          < length [''streetwear'', ''Y2K'', ''casual'', ''everyday'', ''relaxed'']"
    by (rule contract_nonempty[OF draws]) simp
  then obtain t where t: "t \<in> set [''streetwear'', ''Y2K'', ''casual'', ''everyday'', ''relaxed'']"
    and tag: "getRandomItem (Own [''streetwear'', ''Y2K'', ''casual'', ''everyday'', ''relaxed''])
                (rnd (Suc 0)) = Inr (Some t)"
    using getRandomItem_in_range[of "rnd (Suc 0)"
        "[''streetwear'', ''Y2K'', ''casual'', ''everyday'', ''relaxed'']"] by blast
  have dne: "d \<noteq> []" using d by auto
  show ?thesis
    using d t dne
    by (simp add: generateMockAnalysis_def and_then_def describe_slot_unpopulated[OF not_truthy_None]
        slot fall_preset casual_tags tag truthy_def at_index_def given_key given_nullable
        del: set_simps)
qed

theorem C6_fall_casual_bottom_only_witness:
  "(\<forall>n k. half_draws n (Suc k) < Suc k) \<and> truthy (Some ''https://img/bottom.png'')
   \<and> (\<exists>a. generateMockAnalysis None None (Some ''https://img/bottom.png'') None None
             (Given ''Fall'') (Given ''casual'') half_draws ''2025-01-01T00:00:00.000Z'' = Inr a
           \<and> top' a = None \<and> topLayer a = None \<and> shoes a = None
           \<and> bottom a = Some ''plaid skirt''
           \<and> map_of (analysis.colors a) ''bottom'' = Some (Some ''burgundy'')
           \<and> analysis.accessories_tags a = []
           \<and> analysis.aesthetic a = [Some ''earthy'', Some ''layered'', Some ''casual''])"
  using C6_fall_casual_bottom_only[of half_draws "Some ''https://img/bottom.png''"
      "''2025-01-01T00:00:00.000Z''"]
  by (simp add: truthy_def generateMockAnalysis_def and_then_def describe_slot_def getRandomItem_def
      get_prop_def bottomDescriptions_def aestheticOptions_def or_else_def getSeasonPreset_def
      SEASON_PRESETS_def at_index_def Let_def half_draws_def key_of_def default_to_def nullable_def)

subsection \<open>Unrecognized seasons\<close>

text \<open>
  Claim C1. The claim is that the synthesizer, and with it \<open>analyze\<close>, returns a
  complete record for every season string, an unrecognized season falling back to a
  default preset. \<open>getSeasonPreset\<close> does fall back (to Spring), and the formality
  lookup falls back to the casual tags, but the four description tables are read as
  \<open>table[season]\<close> with no fallback: for an unrecognized season and a populated garment
  slot, \<open>getRandomItem\<close> receives \<open>undefined\<close> and the read of \<open>arr.length\<close> throws.
  The theorem evaluates the synthesizer, and \<open>analyzeFit\<close> over a Gateway whose edge
  function is unavailable, at season "Autumn" with the top slot populated.
\<close>

theorem C1_unrecognized_season_throws:
  "generateMockAnalysis (Some ''https://img/top.png'') None None None None
       (Given ''Autumn'') (Given ''casual'') rnd now
     = Inl (TypeError ''Cannot read properties of undefined (reading 'length')'')
   \<and> fst (analyzeFit direct_store
        \<lparr>fit_payload.session_id = ''s1'', fit_payload.top_url = Some ''https://img/top.png'',
         fit_payload.top_layer_url = None, fit_payload.bottom_url = None,
         fit_payload.shoes_url = None, fit_payload.accessories_url = None,
         fit_payload.season = Given ''Autumn'', fit_payload.formality = Given ''casual''\<rparr> rnd now s)
     = Inl (TypeError ''Cannot read properties of undefined (reading 'length')'')"
  by (simp add: analyzeFit_def direct_store_def generateMockAnalysis_def and_then_def describe_slot_def
      truthy_def getRandomItem_def get_prop_def topDescriptions_def object_prototype_keys_def Let_def
      key_of_def default_to_def)

text \<open>
  The parameter defaults apply to \<open>undefined\<close> only. An omitted season is 'Fall'; a
  \<open>null\<close> season is the key "null", which no table has, and is handed back as \<open>null\<close>.
\<close>

lemma null_season_not_defaulted:
  "generateMockAnalysis (Some ''https://img/top.png'') None None None None Null Omitted rnd now
     = Inl (TypeError ''Cannot read properties of undefined (reading 'length')'')"
  "\<exists>a. generateMockAnalysis None None None None None Null Null half_draws now = Inr a
        \<and> analysis.season a = None \<and> analysis.formality a = None
        \<and> analysis.aesthetic a = [Some ''floral'', Some ''airy'', Some ''casual'']"
  "\<exists>a. generateMockAnalysis None None None None None Omitted Omitted half_draws now = Inr a
        \<and> analysis.season a = Some ''Fall'' \<and> analysis.formality a = Some ''casual''"
  by (simp_all add: generateMockAnalysis_def and_then_def describe_slot_def
      truthy_def getRandomItem_def get_prop_def topDescriptions_def object_prototype_keys_def Let_def
      key_of_def default_to_def nullable_def getSeasonPreset_def SEASON_PRESETS_def or_else_def
      aestheticOptions_def at_index_def half_draws_def)

subsection \<open>Shape of the output for valid seasons and formalities\<close>

text \<open>
  Claim C2, as the code has it. For every valid season and formality, every combination
  of image references and every draw stream within the contract, the synthesizer returns
  a record whose aesthetic list has exactly three entries (hence at least one), and whose
  \<open>colors\<close> object always has the five keys top, topLayer, bottom, shoes and
  accessories; the value under a key is a color name when the image reference of that
  slot is a non-empty string, and \<open>null\<close> otherwise.
\<close>

theorem C2_valid_pair_shape:
  assumes season: "s \<in> set [''Spring'', ''Summer'', ''Fall'', ''Winter'']"
    and formality: "f \<in> set [''casual'', ''semi-formal'', ''business-casual'', ''sports'']"
    and draws: "\<forall>n k. 0 < k \<longrightarrow> rnd n k < k"
  shows "\<exists>a. generateMockAnalysis topUrl topLayerUrl bottomUrl shoesUrl accessoriesUrl (Given s) (Given f) rnd now = Inr a
           \<and> length (analysis.aesthetic a) = 3
           \<and> Object_keys (analysis.colors a) = [''top'', ''topLayer'', ''bottom'', ''shoes'', ''accessories'']
           \<and> truthy (get_field (analysis.colors a) ''top'') = truthy topUrl
           \<and> truthy (get_field (analysis.colors a) ''topLayer'') = truthy topLayerUrl
           \<and> truthy (get_field (analysis.colors a) ''bottom'') = truthy bottomUrl
           \<and> truthy (get_field (analysis.colors a) ''shoes'') = truthy shoesUrl
           \<and> truthy (get_field (analysis.colors a) ''accessories'') = truthy accessoriesUrl
           \<and> (\<forall>k v. (k, v) \<in> set (analysis.colors a) \<and> \<not> truthy v \<longrightarrow> v = None)"
proof -
  obtain v1 n1 where s1: "describe_slot topUrl topDescriptions s rnd 0 = Inr (v1, n1)"
    and t1: "truthy v1 = truthy topUrl"
    using valid_season_table[OF season, of topDescriptions]
      describe_slot_valid[of topDescriptions s _ rnd topUrl 0] draws
    by auto
  obtain v2 n2 where s2: "describe_slot topLayerUrl topLayerDescriptions s rnd n1 = Inr (v2, n2)"
    and t2: "truthy v2 = truthy topLayerUrl"
    using valid_season_table[OF season, of topLayerDescriptions]
      describe_slot_valid[of topLayerDescriptions s _ rnd topLayerUrl n1] draws
    by auto
  obtain v3 n3 where s3: "describe_slot bottomUrl bottomDescriptions s rnd n2 = Inr (v3, n3)"
    and t3: "truthy v3 = truthy bottomUrl"
    using valid_season_table[OF season, of bottomDescriptions]
      describe_slot_valid[of bottomDescriptions s _ rnd bottomUrl n2] draws
    by auto
  obtain v4 n4 where s4: "describe_slot shoesUrl shoesDescriptions s rnd n3 = Inr (v4, n4)"
    and t4: "truthy v4 = truthy shoesUrl"
    using valid_season_table[OF season, of shoesDescriptions]
      describe_slot_valid[of shoesDescriptions s _ rnd shoesUrl n3] draws
    by auto
  obtain p where p: "getSeasonPreset s = Own p" and len: "4 \<le> length (recommendedColors p)"
    and ne: "[] \<notin> set (recommendedColors p)" and acc: "take 2 (recommendedAccessories p) \<noteq> []"
    and aes: "length (take 2 (preset.aesthetic p)) = 2"
    using valid_season_preset[OF season] by blast
  obtain ys where ys: "or_else (get_prop aestheticOptions f) (get_prop aestheticOptions ''casual'') = Own ys"
    and ysne: "ys \<noteq> []"
    using valid_formality_tags[OF formality] by blast
  have "rnd n4 (length ys) < length ys" by (rule contract_nonempty[OF draws ysne])
  then obtain tag where tag: "getRandomItem (Own ys) (rnd n4) = Inr (Some tag)"
    using getRandomItem_in_range[of "rnd n4" ys] by blast
  have c: "\<And>i. i < 4 \<Longrightarrow> truthy (at_index (recommendedColors p) (int i))"
  proof -
    fix i :: nat assume i: "i < 4"
    then have "i < length (recommendedColors p)" using len by simp
    then have "recommendedColors p ! i \<in> set (recommendedColors p)" by simp
    then have "recommendedColors p ! i \<noteq> []" using ne by metis
    then show "truthy (at_index (recommendedColors p) (int i))"
      using i len by (simp add: at_index_def truthy_def)
  qed
  have c0: "truthy (at_index (recommendedColors p) 0)" using c[of 0] by simp
  have c1: "truthy (at_index (recommendedColors p) 1)" using c[of 1] by simp
  have c2: "truthy (at_index (recommendedColors p) 2)" using c[of 2] by simp
  have c3: "truthy (at_index (recommendedColors p) 3)" using c[of 3] by simp
  show ?thesis
    using t1 t2 t3 t4 c0 c1 c2 c3 acc aes
    by (auto simp add: generateMockAnalysis_def and_then_def s1 s2 s3 s4 p ys tag Let_def
        Object_keys_def get_field_def not_truthy_None truthy_Some given_key given_nullable)
qed

text \<open>A run of the statement above: Winter, sports, top and shoes populated.\<close>

theorem C2_valid_pair_shape_witness:
  "''Winter'' \<in> set [''Spring'', ''Summer'', ''Fall'', ''Winter'']
   \<and> ''sports'' \<in> set [''casual'', ''semi-formal'', ''business-casual'', ''sports'']
   \<and> (\<forall>n k. half_draws n (Suc k) < Suc k)
   \<and> (\<exists>a. generateMockAnalysis (Some ''https://img/top.png'') None None (Some ''https://img/shoes.png'') None
             (Given ''Winter'') (Given ''sports'') half_draws ''2025-01-01T00:00:00.000Z'' = Inr a
          \<and> analysis.aesthetic a = [Some ''cozy'', Some ''layered'', Some ''performance'']
          \<and> analysis.colors a = [(''top'', Some ''gray''), (''topLayer'', None), (''bottom'', None),
                                  (''shoes'', Some ''burgundy''), (''accessories'', None)])"
  using C2_valid_pair_shape[of "''Winter''" "''sports''" half_draws
      "Some ''https://img/top.png''" None None "Some ''https://img/shoes.png''" None
      "''2025-01-01T00:00:00.000Z''"]
  by (simp add: generateMockAnalysis_def and_then_def describe_slot_def truthy_def getRandomItem_def
      get_prop_def aestheticOptions_def or_else_def getSeasonPreset_def SEASON_PRESETS_def
      topDescriptions_def shoesDescriptions_def
      at_index_def Let_def half_draws_def key_of_def default_to_def nullable_def)

text \<open>
  Claim C2 as stated says that \<open>colors\<close> has a key for a slot only if the slot is
  populated, and is empty when no slot is. With no slot populated the object still has
  its five keys, each with the value \<open>null\<close>.
\<close>

theorem C2_colors_keys_counterexample:
  "\<not> isl (generateMockAnalysis None None None None None (Given ''Fall'') (Given ''casual'')
            half_draws ''2025-01-01T00:00:00.000Z'')
   \<and> analysis.colors (projr (generateMockAnalysis None None None None None (Given ''Fall'') (Given ''casual'')
            half_draws ''2025-01-01T00:00:00.000Z''))
       = [(''top'', None), (''topLayer'', None), (''bottom'', None), (''shoes'', None), (''accessories'', None)]
   \<and> Object_keys (analysis.colors (projr (generateMockAnalysis None None None None None
            (Given ''Fall'') (Given ''casual'') half_draws ''2025-01-01T00:00:00.000Z'')))
       \<noteq> []"
  by (simp add: generateMockAnalysis_def and_then_def describe_slot_def truthy_def getRandomItem_def
      get_prop_def aestheticOptions_def or_else_def getSeasonPreset_def SEASON_PRESETS_def
      at_index_def Let_def half_draws_def Object_keys_def key_of_def default_to_def nullable_def)

section \<open>Properties of the executor\<close>

subsection \<open>Auxiliary facts\<close>

lemma localOutfit_of_id: "id' (localOutfit_of row now_ms) = ''local_'' @ decimal now_ms"
  by (simp add: localOutfit_of_def outfit_data.extend_def outfit.fields_def)

lemma localOutfit_of_truncate: "outfit_data.truncate (localOutfit_of row now_ms) = row"
  by (simp add: localOutfit_of_def outfit_data.extend_def outfit.fields_def outfit_data.truncate_def)

lemma localOutfit_of_session:
  "outfit_data.session_id (localOutfit_of row now_ms) = outfit_data.session_id row"
  by (simp add: localOutfit_of_def outfit_data.extend_def outfit.fields_def)

lemma localOutfit_of_created: "created_at (localOutfit_of row now_ms) = created_at row"
  by (simp add: localOutfit_of_def outfit_data.extend_def outfit.fields_def)

lemma outfitData_of_session:
  "outfit_data.session_id (outfitData_of payload now_iso) = fit_payload.session_id payload"
  by (simp add: outfitData_of_def)

lemma outfitData_of_saved: "saved (outfitData_of payload now_iso)"
  by (simp add: outfitData_of_def)

lemma outfitData_of_created: "created_at (outfitData_of payload now_iso) = now_iso"
  by (simp add: outfitData_of_def)


lemma extend_session:
  "outfit_data.session_id (outfit_data.extend row (outfit.fields i)) = outfit_data.session_id row"
  by (simp add: outfit_data.extend_def outfit.fields_def)

lemma extend_saved: "saved (outfit_data.extend row (outfit.fields i)) = saved row"
  by (simp add: outfit_data.extend_def outfit.fields_def)

lemma extend_created: "created_at (outfit_data.extend row (outfit.fields i)) = created_at row"
  by (simp add: outfit_data.extend_def outfit.fields_def)

lemma extend_id: "id' (outfit_data.extend row (outfit.fields i)) = i"
  by (simp add: outfit_data.extend_def outfit.fields_def)

lemma startsWith_append: "startsWith (p @ s) p"
  by (simp add: startsWith_def)

lemma sample_payload_session: "fit_payload.session_id (sample_payload sessionId) = sessionId"
  by (simp add: sample_payload_def)

lemma decimal_example: "decimal 1735689600000 = ''1735689600000''"
  by (simp add: decimal.simps)

lemma decimal_example2: "decimal 1735776000000 = ''1735776000000''"
  by (simp add: decimal.simps)


lemma decimal_1: "decimal (Suc 0) = ''1''"
  by (simp add: decimal.simps)

text \<open>Reading and writing the cache.\<close>

lemma read_empty_cache: "read_cache empty_cache = Inr []"
  by (simp add: read_cache_def empty_cache_def)

lemma read_after_write: "read_cache (ls\<lparr>saved_outfits := Items xs\<rparr>) = Inr xs"
  by (simp add: read_cache_def)

lemma write_cache_ok: "setItem_error ls = None \<Longrightarrow> write_cache ls xs = Inr (ls\<lparr>saved_outfits := Items xs\<rparr>)"
  by (simp add: write_cache_def)

lemma write_cache_fails: "setItem_error ls = Some e \<Longrightarrow> write_cache ls xs = Inl e"
  by (simp add: write_cache_def)

lemma storage_failure_cases:
  assumes "isl (read_cache ls) \<or> setItem_error ls \<noteq> None"
  obtains e where "read_cache ls = Inl e"
  | xs e where "read_cache ls = Inr xs" "setItem_error ls = Some e"
proof (cases "read_cache ls")
  case (Inl e)
  then show ?thesis using that(1) by blast
next
  case (Inr xs)
  then have "setItem_error ls \<noteq> None" using assms by simp
  then obtain e where "setItem_error ls = Some e" by blast
  then show ?thesis using Inr that(2) by blast
qed

text \<open>The tiers of \<open>saveFit\<close>, \<open>getSavedFits\<close> and \<open>deleteOutfit\<close>.\<close>

lemma tier_failed_cases:
  assumes "tier_failed r"
  obtains e where "r = Raised e" | "r = Returned None"
  using assms by (cases r) (auto simp: tier_failed_def split: option.splits)

lemma saveFit_local:
  assumes "save_tiers_fail gw (outfitData_of payload now_iso) b"
  shows "saveFit gw payload now_iso now_ms b ls =
           (case read_cache ls of
              Inl e \<Rightarrow> (Inl e, snd (outfits_insert gw (outfitData_of payload now_iso)
                                 (snd (invoke_save_fit gw (outfitData_of payload now_iso) b))), ls)
            | Inr xs \<Rightarrow>
               (case write_cache ls (xs @ [localOutfit_of (outfitData_of payload now_iso) now_ms]) of
                  Inl e \<Rightarrow> (Inl e, snd (outfits_insert gw (outfitData_of payload now_iso)
                                     (snd (invoke_save_fit gw (outfitData_of payload now_iso) b))), ls)
                | Inr ls1 \<Rightarrow> (Inr (localOutfit_of (outfitData_of payload now_iso) now_ms),
                              snd (outfits_insert gw (outfitData_of payload now_iso)
                                     (snd (invoke_save_fit gw (outfitData_of payload now_iso) b))), ls1)))"
proof -
  let ?row = "outfitData_of payload now_iso"
  obtain r1 b1 where c1: "invoke_save_fit gw ?row b = (r1, b1)" by (cases "invoke_save_fit gw ?row b")
  obtain r2 b2 where c2: "outfits_insert gw ?row b1 = (r2, b2)" by (cases "outfits_insert gw ?row b1")
  have f1: "tier_failed r1" and f2: "tier_failed r2"
    using assms c1 c2 by (simp_all add: save_tiers_fail_def)
  from f1 f2 show ?thesis
    by (elim tier_failed_cases) (simp_all add: saveFit_def c1 c2 Let_def split: sum.splits)
qed

lemma saveFit_local_stored:
  assumes "save_tiers_fail gw (outfitData_of payload now_iso) b"
    and "read_cache ls = Inr xs" and "setItem_error ls = None"
  shows "\<exists>b1. saveFit gw payload now_iso now_ms b ls =
           (Inr (localOutfit_of (outfitData_of payload now_iso) now_ms), b1,
            ls\<lparr>saved_outfits := Items (xs @ [localOutfit_of (outfitData_of payload now_iso) now_ms])\<rparr>)"
  by (simp add: saveFit_local[OF assms(1)] assms(2) write_cache_ok[OF assms(3)])

lemma saveFit_local_unreadable:
  assumes "save_tiers_fail gw (outfitData_of payload now_iso) b" and "read_cache ls = Inl e"
  shows "\<exists>b1. saveFit gw payload now_iso now_ms b ls = (Inl e, b1, ls)"
  by (simp add: saveFit_local[OF assms(1)] assms(2))

lemma saveFit_local_unwritable:
  assumes "save_tiers_fail gw (outfitData_of payload now_iso) b"
    and "read_cache ls = Inr xs" and "setItem_error ls = Some e"
  shows "\<exists>b1. saveFit gw payload now_iso now_ms b ls = (Inl e, b1, ls)"
  by (simp add: saveFit_local[OF assms(1)] assms(2) write_cache_fails[OF assms(3)])

lemma saveFit_cache_unchanged:
  assumes "\<not> save_tiers_fail gw (outfitData_of payload now_iso) b"
  shows "snd (snd (saveFit gw payload now_iso now_ms b ls)) = ls"
proof -
  let ?row = "outfitData_of payload now_iso"
  obtain r1 b1 where c1: "invoke_save_fit gw ?row b = (r1, b1)" by (cases "invoke_save_fit gw ?row b")
  obtain r2 b2 where c2: "outfits_insert gw ?row b1 = (r2, b2)" by (cases "outfits_insert gw ?row b1")
  have "\<not> tier_failed r1 \<or> \<not> tier_failed r2"
    using assms c1 c2 by (simp add: save_tiers_fail_def)
  then show ?thesis
    by (cases r1; cases r2) (auto simp: saveFit_def c1 c2 tier_failed_def split: option.splits)
qed

lemma getSavedFits_local:
  assumes "fetch_tiers_fail gw sessionId b"
  shows "fst (getSavedFits gw sessionId b ls) =
           (case read_cache ls of
              Inl e \<Rightarrow> []
            | Inr xs \<Rightarrow> filter (\<lambda>outfit. outfit_data.session_id outfit = sessionId) xs)"
proof -
  obtain r1 b1 where c1: "invoke_getSavedFits gw sessionId b = (r1, b1)"
    by (cases "invoke_getSavedFits gw sessionId b")
  obtain r2 b2 where c2: "outfits_select gw sessionId b1 = (r2, b2)"
    by (cases "outfits_select gw sessionId b1")
  have f1: "tier_failed r1" and f2: "tier_failed r2"
    using assms c1 c2 by (simp_all add: fetch_tiers_fail_def)
  from f1 f2 show ?thesis
    by (elim tier_failed_cases) (simp_all add: getSavedFits_def c1 c2 Let_def split: sum.splits)
qed

lemma deleteOutfit_local_stored:
  assumes "startsWith outfitId ''local_''" "read_cache ls = Inr xs" "setItem_error ls = None"
  shows "deleteOutfit gw outfitId b ls =
           (True, b, ls\<lparr>saved_outfits := Items (filter (\<lambda>outfit. id' outfit \<noteq> outfitId) xs)\<rparr>)"
  using assms by (simp add: deleteOutfit_def write_cache_ok Let_def)

lemma deleteOutfit_local_failure:
  assumes "startsWith outfitId ''local_''" "isl (read_cache ls) \<or> setItem_error ls \<noteq> None"
  shows "deleteOutfit gw outfitId b ls = (False, b, ls)"
  using assms(2)
  by (rule storage_failure_cases) (simp_all add: deleteOutfit_def assms(1) write_cache_fails Let_def)

lemma deleteOutfit_remote:
  "\<not> startsWith outfitId ''local_'' \<Longrightarrow>
     deleteOutfit gw outfitId b ls =
       ((\<forall>e. fst (outfits_delete gw outfitId b) \<noteq> Raised e), snd (outfits_delete gw outfitId b), ls)"
  by (cases "outfits_delete gw outfitId b"; cases "fst (outfits_delete gw outfitId b)")
     (auto simp: deleteOutfit_def)

text \<open>The reference Gateway.\<close>

lemma outage_fails_save: "save_tiers_fail direct_store row (outage s)"
  by (simp add: save_tiers_fail_def direct_store_def outage_def tier_failed_def)

lemma outage_fails_fetch: "fetch_tiers_fail direct_store sessionId (outage s)"
  by (simp add: fetch_tiers_fail_def direct_store_def outage_def tier_failed_def)


lemma outage_after_save:
  "snd (outfits_insert direct_store row (snd (invoke_save_fit direct_store row (outage s)))) = outage s"
  by (simp add: direct_store_def outage_def)

lemma saveFit_outage:
  "saveFit direct_store payload now_iso now_ms (outage s) ls =
     (case read_cache ls of
        Inl e \<Rightarrow> (Inl e, outage s, ls)
      | Inr xs \<Rightarrow>
         (case write_cache ls (xs @ [localOutfit_of (outfitData_of payload now_iso) now_ms]) of
            Inl e \<Rightarrow> (Inl e, outage s, ls)
          | Inr ls1 \<Rightarrow> (Inr (localOutfit_of (outfitData_of payload now_iso) now_ms), outage s, ls1)))"
  unfolding saveFit_local[OF outage_fails_save] outage_after_save ..

lemma getSavedFits_outage:
  "fst (getSavedFits direct_store sessionId (outage s) ls) =
     (case read_cache ls of
        Inl e \<Rightarrow> []
      | Inr xs \<Rightarrow> filter (\<lambda>outfit. outfit_data.session_id outfit = sessionId) xs)"
  by (rule getSavedFits_local[OF outage_fails_fetch])

lemma saveFit_direct_store:
  assumes "reachable s"
  shows "saveFit direct_store payload now_iso now_ms s ls =
           (Inr (outfit_data.extend (outfitData_of payload now_iso)
                   (outfit.fields (''row_'' @ decimal (row_ids s)))),
            s\<lparr>rows := rows s @ [outfit_data.extend (outfitData_of payload now_iso)
                                   (outfit.fields (''row_'' @ decimal (row_ids s)))],
              row_ids := Suc (row_ids s)\<rparr>,
            ls)"
  using assms by (simp add: saveFit_def direct_store_def Let_def)

lemma getSavedFits_direct_store:
  assumes "reachable s"
  shows "fst (getSavedFits direct_store sessionId s ls) =
           rev (sort_key created_at
                 (filter (\<lambda>r. outfit_data.session_id r = sessionId \<and> saved r) (rows s)))"
  using assms by (simp add: getSavedFits_def direct_store_def)

text \<open>\<open>analyzeFit\<close> and \<open>uploadFile\<close>.\<close>

lemma sample_fit_payload_fields:
  "fit_payload.top_url (sample_fit_payload sid) = None"
  "fit_payload.top_layer_url (sample_fit_payload sid) = None"
  "fit_payload.bottom_url (sample_fit_payload sid) = Some ''https://img/bottom.png''"
  "fit_payload.shoes_url (sample_fit_payload sid) = None"
  "fit_payload.accessories_url (sample_fit_payload sid) = None"
  "fit_payload.season (sample_fit_payload sid) = Given ''Fall''"
  "fit_payload.formality (sample_fit_payload sid) = Given ''casual''"
  by (simp_all add: sample_fit_payload_def)

lemma analyzeFit_accepted:
  assumes "fst (invoke_analyze_fit gw payload b) = Returned (Some d)"
    and "truthy (top' d) \<or> truthy (analysis.ai_description d)"
  shows "fst (analyzeFit gw payload rnd now b) = Inr d"
  using assms by (cases "invoke_analyze_fit gw payload b") (auto simp: analyzeFit_def Let_def)

lemma analyzeFit_fallback:
  assumes "\<nexists>d. fst (invoke_analyze_fit gw payload b) = Returned (Some d)
              \<and> (truthy (top' d) \<or> truthy (analysis.ai_description d))"
  shows "fst (analyzeFit gw payload rnd now b) =
           generateMockAnalysis (fit_payload.top_url payload) (fit_payload.top_layer_url payload)
             (fit_payload.bottom_url payload) (fit_payload.shoes_url payload)
             (fit_payload.accessories_url payload)
             (fit_payload.season payload) (fit_payload.formality payload) rnd now"
proof -
  obtain r b1 where c: "invoke_analyze_fit gw payload b = (r, b1)"
    by (cases "invoke_analyze_fit gw payload b")
  show ?thesis
  proof (cases r)
    case (Raised e)
    then show ?thesis by (simp add: analyzeFit_def c Let_def)
  next
    case (Returned x)
    show ?thesis
    proof (cases x)
      case None
      then show ?thesis using Returned by (simp add: analyzeFit_def c Let_def)
    next
      case (Some d)
      then have "\<not> (truthy (top' d) \<or> truthy (analysis.ai_description d))"
        using assms c Returned by auto
      then show ?thesis using Returned Some by (simp add: analyzeFit_def c Let_def)
    qed
  qed
qed

lemma upload_raised:
  assumes "fst (storage_upload gw
             (sessionId @ ''/originals/'' @ category @ ''_'' @ decimal now @ ''_'' @ sanitize (name f)) f b) = Raised e"
  shows "fst (uploadFile gw (Some f) category sessionId now b) = Inl e"
  using assms
  by (cases "storage_upload gw
        (sessionId @ ''/originals/'' @ category @ ''_'' @ decimal now @ ''_'' @ sanitize (name f)) f b")
     (simp add: uploadFile_def Let_def)

lemma upload_returned:
  assumes "fst (storage_upload gw
             (sessionId @ ''/originals/'' @ category @ ''_'' @ decimal now @ ''_'' @ sanitize (name f)) f b) = Returned u"
  shows "fst (uploadFile gw (Some f) category sessionId now b) =
           Inr (getPublicUrl gw
             (sessionId @ ''/originals/'' @ category @ ''_'' @ decimal now @ ''_'' @ sanitize (name f)))"
  using assms
  by (cases "storage_upload gw
        (sessionId @ ''/originals/'' @ category @ ''_'' @ decimal now @ ''_'' @ sanitize (name f)) f b")
     (simp add: uploadFile_def Let_def)

text \<open>
  The pattern on an ASCII name, and on a name with one code unit outside ASCII
  ("cafe.png" with an acute accent on the e, the single unit 233): one unit, one
  underscore.
\<close>

lemma sanitize_ascii:
  "sanitize (map of_char s) = map (\<lambda>c. if safe_unit (of_char c) then c else CHR ''_'') s"
  by (simp add: sanitize_def)

lemma sanitize_append: "sanitize (us @ vs) = sanitize us @ sanitize vs"
  by (simp add: sanitize_def)

lemma sanitize_example: "sanitize (map of_char ''my shirt.png'') = ''my_shirt.png''"
  by (simp only: sanitize_ascii) (simp add: safe_unit_def)

lemma sanitize_example_unit:
  "sanitize (map of_char ''caf'' @ [233] @ map of_char ''.png'') = ''caf_.png''"
  by (simp only: sanitize_append sanitize_ascii) (simp add: safe_unit_def sanitize_def)

subsection \<open>upload surfaces its failure\<close>

text \<open>
  Claim C9. For every file, category and session id, \<open>uploadFile\<close> either resolves to
  the public URL of the stored object or rejects with an error, and it has no synthetic
  or local fallback: without a file it rejects with 'No file provided' and leaves the
  Gateway untouched; when the storage call raises, it rejects with that very error; when
  the storage call succeeds, it resolves to the public URL of the path it uploaded to.
  (The helper \<open>uploadOutfitImage\<close> of src/lib/storage.js, which answers \<open>null\<close> on
  failure, is not the upload operation: the executor imports it and never calls it.)
\<close>

theorem C9_upload_no_fallback:
  "uploadFile gw None category sessionId now b = (Inl (Error ''No file provided''), b)
   \<and> (\<forall>e. fst (storage_upload gw
            (sessionId @ ''/originals/'' @ category @ ''_'' @ decimal now @ ''_'' @ sanitize (name f)) f b)
          = Raised e
        \<longrightarrow> fst (uploadFile gw (Some f) category sessionId now b) = Inl e)
   \<and> (\<forall>u. fst (storage_upload gw
            (sessionId @ ''/originals/'' @ category @ ''_'' @ decimal now @ ''_'' @ sanitize (name f)) f b)
          = Returned u
        \<longrightarrow> fst (uploadFile gw (Some f) category sessionId now b) =
              Inr (getPublicUrl gw
                (sessionId @ ''/originals/'' @ category @ ''_'' @ decimal now @ ''_'' @ sanitize (name f))))"
  using upload_raised[of gw sessionId category now f b] upload_returned[of gw sessionId category now f b]
  by (simp add: uploadFile_def)

text \<open>A run over the reference Gateway, during an outage and with the bucket reachable.\<close>

theorem C9_upload_no_fallback_witness:
  "fst (uploadFile direct_store (Some \<lparr>name = map of_char ''my shirt.png''\<rparr>) ''top'' ''s1''
          1735689600000 (outage empty_store)) = Inl (Error ''Failed to fetch'')
   \<and> fst (uploadFile direct_store (Some \<lparr>name = map of_char ''my shirt.png''\<rparr>) ''top'' ''s1''
          1735689600000 empty_store)
       = Inr ''https://demo.supabase.co/storage/v1/object/public/outfit-images/s1/originals/top_1735689600000_my_shirt.png''"
proof -
  let ?f = "\<lparr>name = map of_char ''my shirt.png''\<rparr>"
  let ?path = "''s1'' @ ''/originals/'' @ ''top'' @ ''_'' @ decimal 1735689600000 @ ''_''
                 @ sanitize (name ?f)"
  have h1: "fst (storage_upload direct_store ?path ?f (outage empty_store))
              = Raised (Error ''Failed to fetch'')"
    by (simp add: direct_store_def outage_def)
  have h2: "fst (storage_upload direct_store ?path ?f empty_store) = Returned ()"
    by (simp add: direct_store_def empty_store_def)
  note t = C9_upload_no_fallback[where gw=direct_store and f="?f"
      and category="''top''" and sessionId="''s1''" and now=1735689600000]
  have a: "fst (uploadFile direct_store (Some ?f) ''top'' ''s1'' 1735689600000
              (outage empty_store)) = Inl (Error ''Failed to fetch'')"
    using t[where b="outage empty_store"] h1 by blast
  have b: "fst (uploadFile direct_store (Some ?f) ''top'' ''s1'' 1735689600000
              empty_store) = Inr (getPublicUrl direct_store ?path)"
    using t[where b=empty_store] h2 by blast
  have n: "sanitize (name ?f) = ''my_shirt.png''"
    by (simp only: File.select_convs sanitize_example)
  have p: "?path = ''s1/originals/top_1735689600000_my_shirt.png''"
    unfolding n by (simp add: decimal_example)
  show ?thesis
    using a b unfolding p by (simp add: direct_store_def)
qed

subsection \<open>analyze: which tier answers\<close>

text \<open>
  Claim C7. \<open>analyzeFit\<close> returns the Gateway's answer exactly when the remote call
  succeeds with a payload that has a truthy \<open>top\<close> or a truthy \<open>ai_description\<close>; in
  every other case (the call raises, answers \<open>null\<close>, or answers a payload with
  neither field) the outcome handed to the caller is the one the synthesizer produces
  for the payload's image references, season and formality.
\<close>

theorem C7_analyze_tier_selection:
  "(\<forall>d. fst (invoke_analyze_fit gw payload b) = Returned (Some d)
          \<and> (truthy (top' d) \<or> truthy (analysis.ai_description d))
        \<longrightarrow> fst (analyzeFit gw payload rnd now b) = Inr d)
   \<and> ((\<nexists>d. fst (invoke_analyze_fit gw payload b) = Returned (Some d)
          \<and> (truthy (top' d) \<or> truthy (analysis.ai_description d)))
        \<longrightarrow> fst (analyzeFit gw payload rnd now b) =
              generateMockAnalysis (fit_payload.top_url payload) (fit_payload.top_layer_url payload)
                (fit_payload.bottom_url payload) (fit_payload.shoes_url payload)
                (fit_payload.accessories_url payload)
                (fit_payload.season payload) (fit_payload.formality payload) rnd now)"
  using analyzeFit_accepted[of gw payload b _ rnd now] analyzeFit_fallback[of gw payload b rnd now]
  by blast

text \<open>
  Three runs: an accepted answer, a structurally empty answer (no top, empty
  description), and an unavailable edge function.
\<close>

theorem C7_analyze_tier_selection_witness:
  "fst (analyzeFit (analyze_fit_deployed (Some (answer_with (Some ''white tee'') None)))
          (sample_fit_payload ''s1'') half_draws ''2025-01-01T00:00:00.000Z'' empty_store)
     = Inr (answer_with (Some ''white tee'') None)
   \<and> fst (analyzeFit (analyze_fit_deployed (Some (answer_with None (Some []))))
          (sample_fit_payload ''s1'') half_draws ''2025-01-01T00:00:00.000Z'' empty_store)
     = generateMockAnalysis None None (Some ''https://img/bottom.png'') None None
          (Given ''Fall'') (Given ''casual'') half_draws ''2025-01-01T00:00:00.000Z''
   \<and> fst (analyzeFit direct_store
          (sample_fit_payload ''s1'') half_draws ''2025-01-01T00:00:00.000Z'' empty_store)
     = generateMockAnalysis None None (Some ''https://img/bottom.png'') None None
          (Given ''Fall'') (Given ''casual'') half_draws ''2025-01-01T00:00:00.000Z''"
proof -
  let ?P = "sample_fit_payload ''s1''"
  let ?A = "answer_with (Some ''white tee'') None"
  let ?E = "answer_with None (Some [])"
  have h1: "fst (invoke_analyze_fit (analyze_fit_deployed (Some ?A)) ?P empty_store) = Returned (Some ?A)
            \<and> (truthy (top' ?A) \<or> truthy (analysis.ai_description ?A))"
    by (simp add: analyze_fit_deployed_def answer_with_def truthy_def)
  have h2: "\<nexists>d. fst (invoke_analyze_fit (analyze_fit_deployed (Some ?E)) ?P empty_store) = Returned (Some d)
            \<and> (truthy (top' d) \<or> truthy (analysis.ai_description d))"
    by (auto simp: analyze_fit_deployed_def answer_with_def truthy_def)
  have h3: "\<nexists>d. fst (invoke_analyze_fit direct_store ?P empty_store) = Returned (Some d)
            \<and> (truthy (top' d) \<or> truthy (analysis.ai_description d))"
    by (simp add: direct_store_def)
  note t = C7_analyze_tier_selection[where payload="?P" and b=empty_store
      and rnd=half_draws and now="''2025-01-01T00:00:00.000Z''"]
  have a: "fst (analyzeFit (analyze_fit_deployed (Some ?A)) ?P half_draws
              ''2025-01-01T00:00:00.000Z'' empty_store) = Inr ?A"
    using t[where gw="analyze_fit_deployed (Some ?A)"] h1 by blast
  have b: "fst (analyzeFit (analyze_fit_deployed (Some ?E)) ?P half_draws
              ''2025-01-01T00:00:00.000Z'' empty_store)
            = generateMockAnalysis None None (Some ''https://img/bottom.png'') None None
                (Given ''Fall'') (Given ''casual'') half_draws ''2025-01-01T00:00:00.000Z''"
    using t[where gw="analyze_fit_deployed (Some ?E)"] h2
    by (simp add: sample_fit_payload_fields)
  have c: "fst (analyzeFit direct_store ?P half_draws
              ''2025-01-01T00:00:00.000Z'' empty_store)
            = generateMockAnalysis None None (Some ''https://img/bottom.png'') None None
                (Given ''Fall'') (Given ''casual'') half_draws ''2025-01-01T00:00:00.000Z''"
    using t[where gw=direct_store] h3
    by (simp add: sample_fit_payload_fields)
  show ?thesis using a b c by simp
qed

subsection \<open>Counting records by content\<close>












subsection \<open>save falls back to the Local Durable Cache\<close>

text \<open>
  Claim C5, as the code has it. If both Gateway save tiers fail and the Local Durable
  Cache can be read and written, \<open>saveFit\<close> resolves to a record whose id starts with
  'local_' and whose content is the row built from the payload; the record is appended to
  the cache; and every later \<open>getSavedFits\<close> for the payload's session that is served
  from the cache (both Gateway fetch tiers failing) includes it. If reading the cache
  throws, or writing it throws, \<open>saveFit\<close> rejects with that error and leaves the cache
  as it was.
\<close>

theorem C5_local_save_fallback:
  "(save_tiers_fail gw (outfitData_of payload now_iso) b
      \<and> read_cache ls = Inr xs \<and> setItem_error ls = None
    \<longrightarrow> (\<exists>r b1. saveFit gw payload now_iso now_ms b ls
                   = (Inr r, b1, ls\<lparr>saved_outfits := Items (xs @ [r])\<rparr>)
           \<and> startsWith (id' r) ''local_''
           \<and> outfit_data.truncate r = outfitData_of payload now_iso
           \<and> (\<forall>b'. fetch_tiers_fail gw (fit_payload.session_id payload) b' \<longrightarrow>
                  r \<in> set (fst (getSavedFits gw (fit_payload.session_id payload) b'
                                   (ls\<lparr>saved_outfits := Items (xs @ [r])\<rparr>))))))
   \<and> (save_tiers_fail gw (outfitData_of payload now_iso) b \<and> read_cache ls = Inl e
    \<longrightarrow> (\<exists>b1. saveFit gw payload now_iso now_ms b ls = (Inl e, b1, ls)))
   \<and> (save_tiers_fail gw (outfitData_of payload now_iso) b
      \<and> read_cache ls = Inr xs \<and> setItem_error ls = Some e
    \<longrightarrow> (\<exists>b1. saveFit gw payload now_iso now_ms b ls = (Inl e, b1, ls)))"
proof (intro conjI impI)
  assume a: "save_tiers_fail gw (outfitData_of payload now_iso) b
      \<and> read_cache ls = Inr xs \<and> setItem_error ls = None"
  let ?r = "localOutfit_of (outfitData_of payload now_iso) now_ms"
  let ?ls1 = "ls\<lparr>saved_outfits := Items (xs @ [?r])\<rparr>"
  obtain b1 where sv: "saveFit gw payload now_iso now_ms b ls = (Inr ?r, b1, ?ls1)"
    using a saveFit_local_stored[of gw payload now_iso b ls xs now_ms] by blast
  have sess: "outfit_data.session_id ?r = fit_payload.session_id payload"
    by (simp only: localOutfit_of_session outfitData_of_session)
  have "\<forall>b'. fetch_tiers_fail gw (fit_payload.session_id payload) b' \<longrightarrow>
          ?r \<in> set (fst (getSavedFits gw (fit_payload.session_id payload) b' ?ls1))"
    using sess by (simp add: getSavedFits_local read_after_write)
  moreover have "startsWith (id' ?r) ''local_''"
    by (simp only: localOutfit_of_id startsWith_append)
  moreover have "outfit_data.truncate ?r = outfitData_of payload now_iso"
    by (rule localOutfit_of_truncate)
  ultimately show "\<exists>r b1. saveFit gw payload now_iso now_ms b ls
                   = (Inr r, b1, ls\<lparr>saved_outfits := Items (xs @ [r])\<rparr>)
           \<and> startsWith (id' r) ''local_''
           \<and> outfit_data.truncate r = outfitData_of payload now_iso
           \<and> (\<forall>b'. fetch_tiers_fail gw (fit_payload.session_id payload) b' \<longrightarrow>
                  r \<in> set (fst (getSavedFits gw (fit_payload.session_id payload) b'
                                   (ls\<lparr>saved_outfits := Items (xs @ [r])\<rparr>))))"
    using sv by blast
next
  assume "save_tiers_fail gw (outfitData_of payload now_iso) b \<and> read_cache ls = Inl e"
  then show "\<exists>b1. saveFit gw payload now_iso now_ms b ls = (Inl e, b1, ls)"
    using saveFit_local_unreadable[of gw payload now_iso b ls e now_ms] by blast
next
  assume "save_tiers_fail gw (outfitData_of payload now_iso) b
      \<and> read_cache ls = Inr xs \<and> setItem_error ls = Some e"
  then show "\<exists>b1. saveFit gw payload now_iso now_ms b ls = (Inl e, b1, ls)"
    using saveFit_local_unwritable[of gw payload now_iso b ls xs e now_ms] by blast
qed

text \<open>
  A run over the reference Gateway during an outage: from an empty cache, from a cache
  whose entry does not parse, and from a cache whose quota is exhausted.
\<close>

theorem C5_local_save_fallback_witness:
  "save_tiers_fail direct_store
      (outfitData_of (sample_payload ''s1'') ''2025-01-01T00:00:00.000Z'') (outage empty_store)
   \<and> fetch_tiers_fail direct_store (fit_payload.session_id (sample_payload ''s1'')) (outage empty_store)
   \<and> (\<exists>r. saveFit direct_store (sample_payload ''s1'') ''2025-01-01T00:00:00.000Z''
               1735689600000 (outage empty_store) empty_cache
             = (Inr r, outage empty_store, empty_cache\<lparr>saved_outfits := Items [r]\<rparr>)
          \<and> id' r = ''local_1735689600000''
          \<and> fst (getSavedFits direct_store ''s1'' (outage empty_store)
                   (empty_cache\<lparr>saved_outfits := Items [r]\<rparr>)) = [r])
   \<and> fst (saveFit direct_store (sample_payload ''s1'') ''2025-01-01T00:00:00.000Z''
               1735689600000 (outage empty_store)
               (empty_cache\<lparr>saved_outfits := Unreadable (SyntaxError ''Unexpected end of JSON input'')\<rparr>))
       = Inl (SyntaxError ''Unexpected end of JSON input'')
   \<and> fst (saveFit direct_store (sample_payload ''s1'') ''2025-01-01T00:00:00.000Z''
               1735689600000 (outage empty_store) (quota_exceeded empty_cache))
       = Inl (DOMException ''QuotaExceededError'')"
proof -
  let ?P = "sample_payload ''s1''"
  let ?row = "outfitData_of ?P ''2025-01-01T00:00:00.000Z''"
  let ?bad = "empty_cache\<lparr>saved_outfits := Unreadable (SyntaxError ''Unexpected end of JSON input'')\<rparr>"
  have h: "save_tiers_fail direct_store ?row (outage empty_store)" by (rule outage_fails_save)
  have g: "fetch_tiers_fail direct_store (fit_payload.session_id ?P) (outage empty_store)"
    by (rule outage_fails_fetch)
  have s: "fit_payload.session_id ?P = ''s1''" by (rule sample_payload_session)
  have w: "setItem_error empty_cache = None" by (simp add: empty_cache_def)
  have u: "read_cache ?bad = Inl (SyntaxError ''Unexpected end of JSON input'')"
    by (simp add: read_cache_def)
  have q1: "read_cache (quota_exceeded empty_cache) = Inr []"
    by (simp add: read_cache_def quota_exceeded_def empty_cache_def)
  have q2: "setItem_error (quota_exceeded empty_cache) = Some (DOMException ''QuotaExceededError'')"
    by (simp add: quota_exceeded_def)
  note t = C5_local_save_fallback[where gw=direct_store and payload="?P"
      and now_iso="''2025-01-01T00:00:00.000Z''" and now_ms=1735689600000 and b="outage empty_store"]
  obtain r b1 where
    sv: "saveFit direct_store ?P ''2025-01-01T00:00:00.000Z'' 1735689600000
           (outage empty_store) empty_cache = (Inr r, b1, empty_cache\<lparr>saved_outfits := Items ([] @ [r])\<rparr>)"
    and inc: "\<forall>b'. fetch_tiers_fail direct_store (fit_payload.session_id ?P) b' \<longrightarrow>
                r \<in> set (fst (getSavedFits direct_store (fit_payload.session_id ?P) b'
                                (empty_cache\<lparr>saved_outfits := Items ([] @ [r])\<rparr>)))"
    using t[where ls=empty_cache and xs="[]"] h read_empty_cache w by blast
  have ev: "saveFit direct_store ?P ''2025-01-01T00:00:00.000Z'' 1735689600000
           (outage empty_store) empty_cache
          = (Inr (localOutfit_of ?row 1735689600000), outage empty_store,
             empty_cache\<lparr>saved_outfits := Items [localOutfit_of ?row 1735689600000]\<rparr>)"
    by (simp add: saveFit_outage read_empty_cache write_cache_ok[OF w])
  have r: "r = localOutfit_of ?row 1735689600000" and b1: "b1 = outage empty_store"
    using sv ev by simp_all
  have i: "id' r = ''local_1735689600000''"
    by (simp add: r localOutfit_of_id decimal_example)
  have "outfit_data.session_id r = ''s1''"
    by (simp only: r localOutfit_of_session outfitData_of_session s)
  then have f: "fst (getSavedFits direct_store ''s1'' (outage empty_store)
                  (empty_cache\<lparr>saved_outfits := Items [r]\<rparr>)) = [r]"
    by (simp add: getSavedFits_outage read_after_write)
  have a: "fst (saveFit direct_store ?P ''2025-01-01T00:00:00.000Z'' 1735689600000
                  (outage empty_store) ?bad) = Inl (SyntaxError ''Unexpected end of JSON input'')"
    using t[where ls="?bad" and e="SyntaxError ''Unexpected end of JSON input''"] h u by force
  have c: "fst (saveFit direct_store ?P ''2025-01-01T00:00:00.000Z'' 1735689600000
                  (outage empty_store) (quota_exceeded empty_cache))
             = Inl (DOMException ''QuotaExceededError'')"
    using t[where ls="quota_exceeded empty_cache" and xs="[]"
        and e="DOMException ''QuotaExceededError''"] h q1 q2 by force
  show ?thesis using h g sv b1 i f a c by simp
qed

text \<open>
  Claim C5 as stated has \<open>saveFit\<close> resolve whenever both Gateway tiers raise. The local
  tier is inside the outer \<open>try\<close> only: with the quota of \<open>localStorage\<close> exhausted,
  \<open>setItem\<close> throws, the outer \<open>catch\<close> re-throws, and \<open>saveFit\<close> rejects; nothing
  is stored.
\<close>

theorem C5_storage_failure_counterexample:
  "save_tiers_fail direct_store
      (outfitData_of (sample_payload ''s1'') ''2025-01-01T00:00:00.000Z'') (outage empty_store)
   \<and> saveFit direct_store (sample_payload ''s1'') ''2025-01-01T00:00:00.000Z''
        1735689600000 (outage empty_store) (quota_exceeded empty_cache)
       = (Inl (DOMException ''QuotaExceededError''), outage empty_store, quota_exceeded empty_cache)"
  by (simp add: outage_fails_save saveFit_outage)
     (simp add: read_cache_def write_cache_def quota_exceeded_def empty_cache_def)

subsection \<open>save followed by fetchAll\<close>






subsection \<open>Order of the records fetched from the cache\<close>

text \<open>
  Claim C4. The claim is that \<open>fetchAll\<close> returns the session's records newest first
  on every tier, the Local Durable Cache included. The cache tier filters by session and
  returns the records in the order they were appended, which is oldest first; both
  Gateway queries order by descending \<open>created_at\<close>. The theorem saves two records of
  one session a day apart during an outage and fetches them from the cache; the same two
  saves served by the outfits table come back newest first.
\<close>

theorem C4_local_tier_oldest_first:
  "map created_at (fst (getSavedFits direct_store ''s1'' (outage empty_store)
      (snd (snd (saveFit direct_store (sample_payload ''s1'') ''2025-01-02T00:00:00.000Z''
                   1735776000000 (outage empty_store)
         (snd (snd (saveFit direct_store (sample_payload ''s1'') ''2025-01-01T00:00:00.000Z''
                      1735689600000 (outage empty_store) empty_cache))))))))
     = [''2025-01-01T00:00:00.000Z'', ''2025-01-02T00:00:00.000Z'']
   \<and> ''2025-01-01T00:00:00.000Z'' < ''2025-01-02T00:00:00.000Z''
   \<and> map created_at (fst (getSavedFits direct_store ''s1''
      (fst (snd (saveFit direct_store (sample_payload ''s1'') ''2025-01-02T00:00:00.000Z''
                   1735776000000
         (fst (snd (saveFit direct_store (sample_payload ''s1'') ''2025-01-01T00:00:00.000Z''
                      1735689600000 empty_store empty_cache))) empty_cache))) empty_cache))
     = [''2025-01-02T00:00:00.000Z'', ''2025-01-01T00:00:00.000Z'']"
proof -
  let ?L1 = "localOutfit_of (outfitData_of (sample_payload ''s1'') ''2025-01-01T00:00:00.000Z'') 1735689600000"
  have up: "reachable empty_store" by (simp add: empty_store_def)
  have w: "setItem_error empty_cache = None" by (simp add: empty_cache_def)
  have w1: "setItem_error (empty_cache\<lparr>saved_outfits := Items [?L1]\<rparr>) = None"
    by (simp add: empty_cache_def)
  have first: "snd (snd (saveFit direct_store (sample_payload ''s1'') ''2025-01-01T00:00:00.000Z''
                      1735689600000 (outage empty_store) empty_cache))
                 = empty_cache\<lparr>saved_outfits := Items [?L1]\<rparr>"
    by (simp add: saveFit_outage read_empty_cache write_cache_ok[OF w])
  have cache_tier: "map created_at (fst (getSavedFits direct_store ''s1'' (outage empty_store)
      (snd (snd (saveFit direct_store (sample_payload ''s1'') ''2025-01-02T00:00:00.000Z''
                   1735776000000 (outage empty_store)
         (snd (snd (saveFit direct_store (sample_payload ''s1'') ''2025-01-01T00:00:00.000Z''
                      1735689600000 (outage empty_store) empty_cache))))))))
     = [''2025-01-01T00:00:00.000Z'', ''2025-01-02T00:00:00.000Z'']"
    unfolding first
    by (simp add: saveFit_outage getSavedFits_outage read_after_write write_cache_ok[OF w1]
        localOutfit_of_session outfitData_of_session sample_payload_session
        localOutfit_of_created outfitData_of_created)
  have table_tier: "map created_at (fst (getSavedFits direct_store ''s1''
      (fst (snd (saveFit direct_store (sample_payload ''s1'') ''2025-01-02T00:00:00.000Z''
                   1735776000000
         (fst (snd (saveFit direct_store (sample_payload ''s1'') ''2025-01-01T00:00:00.000Z''
                      1735689600000 empty_store empty_cache))) empty_cache))) empty_cache))
     = [''2025-01-02T00:00:00.000Z'', ''2025-01-01T00:00:00.000Z'']"
    by (simp add: saveFit_direct_store up getSavedFits_direct_store extend_session extend_saved
        extend_created outfitData_of_session outfitData_of_saved outfitData_of_created
        sample_payload_session empty_store_def)
  show ?thesis using cache_tier table_tier by simp
qed

subsection \<open>delete dispatches on the origin prefix\<close>

lemma startsWith_local_example: "startsWith ''local_1735689600000'' ''local_''"
  by (simp add: startsWith_def)

lemma startsWith_local_example2: "startsWith ''local_1735776000000'' ''local_''"
  by (simp add: startsWith_def)

lemma startsWith_row_example: "\<not> startsWith ''row_0'' ''local_''"
  by (simp add: startsWith_def)

text \<open>
  Claim C8. \<open>deleteOutfit\<close> resolves to a boolean and dispatches on the id's prefix.
  For an id that starts with 'local_' it makes no Gateway call, whatever the Gateway: it
  hands back the remote state it was given. When the Local Durable Cache can be read and
  written it answers \<open>true\<close> and removes the entries of that id from the cache; when
  reading or writing the cache throws it answers \<open>false\<close> and the cache is as it was.
  For any other id it makes the Gateway delete call and nothing else: the cache is
  returned as it was, and the answer is \<open>true\<close> exactly when the call did not raise.
\<close>

theorem C8_delete_dispatch:
  "(startsWith outfitId ''local_'' \<and> read_cache ls = Inr xs \<and> setItem_error ls = None \<longrightarrow>
      deleteOutfit gw outfitId b ls =
        (True, b, ls\<lparr>saved_outfits := Items (filter (\<lambda>outfit. id' outfit \<noteq> outfitId) xs)\<rparr>))
   \<and> (startsWith outfitId ''local_'' \<and> (isl (read_cache ls) \<or> setItem_error ls \<noteq> None) \<longrightarrow>
      deleteOutfit gw outfitId b ls = (False, b, ls))
   \<and> (\<not> startsWith outfitId ''local_'' \<longrightarrow>
      deleteOutfit gw outfitId b ls =
        ((\<forall>e. fst (outfits_delete gw outfitId b) \<noteq> Raised e),
         snd (outfits_delete gw outfitId b), ls))"
  using deleteOutfit_local_stored[of outfitId ls xs gw b]
    deleteOutfit_local_failure[of outfitId ls gw b]
    deleteOutfit_remote[of outfitId gw b ls] by blast

text \<open>
  A local delete, a local delete with the quota of the cache exhausted, a remote delete
  during an outage, and a remote delete that succeeds.
\<close>

theorem C8_delete_dispatch_witness:
  "startsWith ''local_1735689600000'' ''local_''
   \<and> deleteOutfit direct_store ''local_1735689600000'' empty_store
        (empty_cache\<lparr>saved_outfits := Items
          [localOutfit_of (outfitData_of (sample_payload ''s1'') ''2025-01-01T00:00:00.000Z'') 1735689600000,
           localOutfit_of (outfitData_of (sample_payload ''s2'') ''2025-01-02T00:00:00.000Z'') 1735776000000]\<rparr>)
       = (True, empty_store,
          empty_cache\<lparr>saved_outfits := Items
            [localOutfit_of (outfitData_of (sample_payload ''s2'') ''2025-01-02T00:00:00.000Z'') 1735776000000]\<rparr>)
   \<and> deleteOutfit direct_store ''local_1735689600000'' empty_store
        (quota_exceeded (empty_cache\<lparr>saved_outfits := Items
          [localOutfit_of (outfitData_of (sample_payload ''s1'') ''2025-01-01T00:00:00.000Z'') 1735689600000]\<rparr>))
       = (False, empty_store,
          quota_exceeded (empty_cache\<lparr>saved_outfits := Items
            [localOutfit_of (outfitData_of (sample_payload ''s1'') ''2025-01-01T00:00:00.000Z'') 1735689600000]\<rparr>))
   \<and> \<not> startsWith ''row_0'' ''local_''
   \<and> deleteOutfit direct_store ''row_0'' (outage empty_store)
        (empty_cache\<lparr>saved_outfits := Items
          [localOutfit_of (outfitData_of (sample_payload ''s1'') ''2025-01-01T00:00:00.000Z'') 1735689600000]\<rparr>)
       = (False, outage empty_store,
          empty_cache\<lparr>saved_outfits := Items
            [localOutfit_of (outfitData_of (sample_payload ''s1'') ''2025-01-01T00:00:00.000Z'') 1735689600000]\<rparr>)
   \<and> deleteOutfit direct_store ''row_0'' empty_store empty_cache = (True, empty_store, empty_cache)"
proof -
  let ?L1 = "localOutfit_of (outfitData_of (sample_payload ''s1'') ''2025-01-01T00:00:00.000Z'') 1735689600000"
  let ?L2 = "localOutfit_of (outfitData_of (sample_payload ''s2'') ''2025-01-02T00:00:00.000Z'') 1735776000000"
  let ?two = "empty_cache\<lparr>saved_outfits := Items [?L1, ?L2]\<rparr>"
  let ?one = "empty_cache\<lparr>saved_outfits := Items [?L1]\<rparr>"
  have w: "setItem_error ?two = None" by (simp add: empty_cache_def)
  have q: "isl (read_cache (quota_exceeded ?one)) \<or> setItem_error (quota_exceeded ?one) \<noteq> None"
    by (simp add: quota_exceeded_def)
  have a: "deleteOutfit direct_store ''local_1735689600000'' empty_store ?two
             = (True, empty_store, empty_cache\<lparr>saved_outfits := Items [?L2]\<rparr>)"
    using C8_delete_dispatch[of "''local_1735689600000''" ?two "[?L1, ?L2]" direct_store empty_store]
      startsWith_local_example read_after_write[where ls=empty_cache and xs="[?L1, ?L2]"] w
    by (simp add: localOutfit_of_id decimal_example decimal_example2)
  have b: "deleteOutfit direct_store ''local_1735689600000'' empty_store (quota_exceeded ?one)
             = (False, empty_store, quota_exceeded ?one)"
    using C8_delete_dispatch[of "''local_1735689600000''" "quota_exceeded ?one" "[]" direct_store
        empty_store] startsWith_local_example q by blast
  have c: "deleteOutfit direct_store ''row_0'' (outage empty_store) ?one
             = (False, outage empty_store, ?one)"
    using C8_delete_dispatch[of "''row_0''" ?one "[]" direct_store "outage empty_store"]
      startsWith_row_example
    by (simp add: direct_store_def outage_def)
  have d: "deleteOutfit direct_store ''row_0'' empty_store empty_cache
             = (True, empty_store, empty_cache)"
    using C8_delete_dispatch[of "''row_0''" empty_cache "[]" direct_store empty_store]
      startsWith_row_example
    by (simp add: direct_store_def empty_store_def)
  show ?thesis using startsWith_local_example startsWith_row_example a b c d by simp
qed

subsection \<open>Frame of the cache mutations\<close>

text \<open>
  Claim C10. Every mutation of the Local Durable Cache preserves the unrelated records.
  When both Gateway save tiers fail and the cache can be read and written, \<open>saveFit\<close>
  leaves the cache as the previous entries, in order, followed by exactly one new record;
  when reading or writing the cache throws, or when a Gateway tier serves the save, the
  cache is untouched. Deleting a 'local_'-prefixed id from a cache that can be read and
  written leaves exactly the entries whose id differs from it, in order; when reading or
  writing the cache throws, and when deleting any other id, the cache is untouched.
\<close>

theorem C10_cache_frame:
  "(save_tiers_fail gw (outfitData_of payload now_iso) b
      \<and> read_cache ls = Inr xs \<and> setItem_error ls = None \<longrightarrow>
      (\<exists>r. snd (snd (saveFit gw payload now_iso now_ms b ls))
              = ls\<lparr>saved_outfits := Items (xs @ [r])\<rparr>))
   \<and> (save_tiers_fail gw (outfitData_of payload now_iso) b
      \<and> (isl (read_cache ls) \<or> setItem_error ls \<noteq> None) \<longrightarrow>
      snd (snd (saveFit gw payload now_iso now_ms b ls)) = ls)
   \<and> (\<not> save_tiers_fail gw (outfitData_of payload now_iso) b \<longrightarrow>
      snd (snd (saveFit gw payload now_iso now_ms b ls)) = ls)
   \<and> (startsWith outfitId ''local_'' \<and> read_cache ls' = Inr ys \<and> setItem_error ls' = None \<longrightarrow>
      snd (snd (deleteOutfit gw outfitId b' ls')) =
        ls'\<lparr>saved_outfits := Items (filter (\<lambda>outfit. id' outfit \<noteq> outfitId) ys)\<rparr>)
   \<and> (startsWith outfitId ''local_'' \<and> (isl (read_cache ls') \<or> setItem_error ls' \<noteq> None) \<longrightarrow>
      snd (snd (deleteOutfit gw outfitId b' ls')) = ls')
   \<and> (\<not> startsWith outfitId ''local_'' \<longrightarrow> snd (snd (deleteOutfit gw outfitId b' ls')) = ls')"
proof (intro conjI impI)
  assume a: "save_tiers_fail gw (outfitData_of payload now_iso) b
      \<and> read_cache ls = Inr xs \<and> setItem_error ls = None"
  obtain b1 where "saveFit gw payload now_iso now_ms b ls =
           (Inr (localOutfit_of (outfitData_of payload now_iso) now_ms), b1,
            ls\<lparr>saved_outfits := Items (xs @ [localOutfit_of (outfitData_of payload now_iso) now_ms])\<rparr>)"
    using a saveFit_local_stored[of gw payload now_iso b ls xs now_ms] by blast
  then show "\<exists>r. snd (snd (saveFit gw payload now_iso now_ms b ls))
              = ls\<lparr>saved_outfits := Items (xs @ [r])\<rparr>"
    by auto
next
  assume a: "save_tiers_fail gw (outfitData_of payload now_iso) b
      \<and> (isl (read_cache ls) \<or> setItem_error ls \<noteq> None)"
  then have f: "isl (read_cache ls) \<or> setItem_error ls \<noteq> None" by simp
  from f show "snd (snd (saveFit gw payload now_iso now_ms b ls)) = ls"
  proof (rule storage_failure_cases)
    fix e assume "read_cache ls = Inl e"
    then obtain b1 where "saveFit gw payload now_iso now_ms b ls = (Inl e, b1, ls)"
      using a saveFit_local_unreadable[of gw payload now_iso b ls e now_ms] by blast
    then show ?thesis by simp
  next
    fix zs e assume "read_cache ls = Inr zs" "setItem_error ls = Some e"
    then obtain b1 where "saveFit gw payload now_iso now_ms b ls = (Inl e, b1, ls)"
      using a saveFit_local_unwritable[of gw payload now_iso b ls zs e now_ms] by blast
    then show ?thesis by simp
  qed
next
  assume "\<not> save_tiers_fail gw (outfitData_of payload now_iso) b"
  then show "snd (snd (saveFit gw payload now_iso now_ms b ls)) = ls"
    by (rule saveFit_cache_unchanged)
next
  assume "startsWith outfitId ''local_'' \<and> read_cache ls' = Inr ys \<and> setItem_error ls' = None"
  then show "snd (snd (deleteOutfit gw outfitId b' ls')) =
        ls'\<lparr>saved_outfits := Items (filter (\<lambda>outfit. id' outfit \<noteq> outfitId) ys)\<rparr>"
    by (simp add: deleteOutfit_local_stored)
next
  assume "startsWith outfitId ''local_'' \<and> (isl (read_cache ls') \<or> setItem_error ls' \<noteq> None)"
  then show "snd (snd (deleteOutfit gw outfitId b' ls')) = ls'"
    by (simp add: deleteOutfit_local_failure)
next
  assume "\<not> startsWith outfitId ''local_''"
  then show "snd (snd (deleteOutfit gw outfitId b' ls')) = ls'"
    by (simp add: deleteOutfit_remote)
qed

text \<open>
  A cache holding a record of another session, through a local save, a save served by the
  table, a save and a delete with the quota exhausted, a local delete and a remote delete.
\<close>

theorem C10_cache_frame_witness:
  "save_tiers_fail direct_store
      (outfitData_of (sample_payload ''s2'') ''2025-01-02T00:00:00.000Z'') (outage empty_store)
   \<and> snd (snd (saveFit direct_store (sample_payload ''s2'') ''2025-01-02T00:00:00.000Z'' 1735776000000
        (outage empty_store)
        (empty_cache\<lparr>saved_outfits := Items
          [localOutfit_of (outfitData_of (sample_payload ''s1'') ''2025-01-01T00:00:00.000Z'') 1735689600000]\<rparr>)))
       = empty_cache\<lparr>saved_outfits := Items
          [localOutfit_of (outfitData_of (sample_payload ''s1'') ''2025-01-01T00:00:00.000Z'') 1735689600000,
           localOutfit_of (outfitData_of (sample_payload ''s2'') ''2025-01-02T00:00:00.000Z'') 1735776000000]\<rparr>
   \<and> snd (snd (saveFit direct_store (sample_payload ''s2'') ''2025-01-02T00:00:00.000Z'' 1735776000000
        (outage empty_store)
        (quota_exceeded (empty_cache\<lparr>saved_outfits := Items
          [localOutfit_of (outfitData_of (sample_payload ''s1'') ''2025-01-01T00:00:00.000Z'') 1735689600000]\<rparr>))))
       = quota_exceeded (empty_cache\<lparr>saved_outfits := Items
          [localOutfit_of (outfitData_of (sample_payload ''s1'') ''2025-01-01T00:00:00.000Z'') 1735689600000]\<rparr>)
   \<and> \<not> save_tiers_fail direct_store
      (outfitData_of (sample_payload ''s2'') ''2025-01-02T00:00:00.000Z'') empty_store
   \<and> snd (snd (saveFit direct_store (sample_payload ''s2'') ''2025-01-02T00:00:00.000Z'' 1735776000000
        empty_store
        (empty_cache\<lparr>saved_outfits := Items
          [localOutfit_of (outfitData_of (sample_payload ''s1'') ''2025-01-01T00:00:00.000Z'') 1735689600000]\<rparr>)))
       = empty_cache\<lparr>saved_outfits := Items
          [localOutfit_of (outfitData_of (sample_payload ''s1'') ''2025-01-01T00:00:00.000Z'') 1735689600000]\<rparr>
   \<and> startsWith ''local_1735776000000'' ''local_''
   \<and> snd (snd (deleteOutfit direct_store ''local_1735776000000'' empty_store
        (empty_cache\<lparr>saved_outfits := Items
          [localOutfit_of (outfitData_of (sample_payload ''s1'') ''2025-01-01T00:00:00.000Z'') 1735689600000,
           localOutfit_of (outfitData_of (sample_payload ''s2'') ''2025-01-02T00:00:00.000Z'') 1735776000000]\<rparr>)))
       = empty_cache\<lparr>saved_outfits := Items
          [localOutfit_of (outfitData_of (sample_payload ''s1'') ''2025-01-01T00:00:00.000Z'') 1735689600000]\<rparr>
   \<and> snd (snd (deleteOutfit direct_store ''local_1735776000000'' empty_store
        (quota_exceeded (empty_cache\<lparr>saved_outfits := Items
          [localOutfit_of (outfitData_of (sample_payload ''s1'') ''2025-01-01T00:00:00.000Z'') 1735689600000]\<rparr>))))
       = quota_exceeded (empty_cache\<lparr>saved_outfits := Items
          [localOutfit_of (outfitData_of (sample_payload ''s1'') ''2025-01-01T00:00:00.000Z'') 1735689600000]\<rparr>)
   \<and> \<not> startsWith ''row_0'' ''local_''
   \<and> snd (snd (deleteOutfit direct_store ''row_0'' empty_store
        (empty_cache\<lparr>saved_outfits := Items
          [localOutfit_of (outfitData_of (sample_payload ''s1'') ''2025-01-01T00:00:00.000Z'') 1735689600000]\<rparr>)))
       = empty_cache\<lparr>saved_outfits := Items
          [localOutfit_of (outfitData_of (sample_payload ''s1'') ''2025-01-01T00:00:00.000Z'') 1735689600000]\<rparr>"
proof -
  let ?L1 = "localOutfit_of (outfitData_of (sample_payload ''s1'') ''2025-01-01T00:00:00.000Z'') 1735689600000"
  let ?L2 = "localOutfit_of (outfitData_of (sample_payload ''s2'') ''2025-01-02T00:00:00.000Z'') 1735776000000"
  let ?row = "outfitData_of (sample_payload ''s2'') ''2025-01-02T00:00:00.000Z''"
  let ?one = "empty_cache\<lparr>saved_outfits := Items [?L1]\<rparr>"
  let ?two = "empty_cache\<lparr>saved_outfits := Items [?L1, ?L2]\<rparr>"
  have h1: "save_tiers_fail direct_store ?row (outage empty_store)" by (rule outage_fails_save)
  have h2: "\<not> save_tiers_fail direct_store ?row empty_store"
    by (simp add: save_tiers_fail_def direct_store_def empty_store_def tier_failed_def Let_def)
  have w1: "setItem_error ?one = None" and w2: "setItem_error ?two = None"
    by (simp_all add: empty_cache_def)
  have q: "isl (read_cache (quota_exceeded ?one)) \<or> setItem_error (quota_exceeded ?one) \<noteq> None"
    by (simp add: quota_exceeded_def)
  note t = C10_cache_frame[where gw=direct_store and payload="sample_payload ''s2''"
      and now_iso="''2025-01-02T00:00:00.000Z''" and now_ms=1735776000000]
  have a0: "\<exists>r. snd (snd (saveFit direct_store (sample_payload ''s2'') ''2025-01-02T00:00:00.000Z''
              1735776000000 (outage empty_store) ?one)) = ?one\<lparr>saved_outfits := Items ([?L1] @ [r])\<rparr>"
    using t[where b="outage empty_store" and ls="?one" and xs="[?L1]" and outfitId="''row_0''"
        and b'=empty_store and ls'=empty_cache and ys="[]"] h1 read_after_write[where ls=empty_cache and xs="[?L1]"] w1
    by blast
  have a: "snd (snd (saveFit direct_store (sample_payload ''s2'') ''2025-01-02T00:00:00.000Z''
              1735776000000 (outage empty_store) ?one)) = ?two"
    using a0 by (simp add: saveFit_outage read_after_write write_cache_ok[OF w1])
  have a': "snd (snd (saveFit direct_store (sample_payload ''s2'') ''2025-01-02T00:00:00.000Z''
              1735776000000 (outage empty_store) (quota_exceeded ?one))) = quota_exceeded ?one"
    using t[where b="outage empty_store" and ls="quota_exceeded ?one" and xs="[]"
        and outfitId="''row_0''" and b'=empty_store and ls'=empty_cache and ys="[]"] h1 q
    by blast
  have b: "snd (snd (saveFit direct_store (sample_payload ''s2'') ''2025-01-02T00:00:00.000Z''
              1735776000000 empty_store ?one)) = ?one"
    using t[where b=empty_store and ls="?one" and xs="[]" and outfitId="''row_0''"
        and b'=empty_store and ls'=empty_cache and ys="[]"] h2
    by blast
  have c: "snd (snd (deleteOutfit direct_store ''local_1735776000000'' empty_store ?two)) = ?one"
    using t[where b=empty_store and ls=empty_cache and xs="[]" and outfitId="''local_1735776000000''"
        and b'=empty_store and ls'="?two" and ys="[?L1, ?L2]"]
      startsWith_local_example2 read_after_write[where ls=empty_cache and xs="[?L1, ?L2]"] w2
    by (simp add: localOutfit_of_id decimal_example decimal_example2)
  have c': "snd (snd (deleteOutfit direct_store ''local_1735776000000'' empty_store
              (quota_exceeded ?one))) = quota_exceeded ?one"
    using t[where b=empty_store and ls=empty_cache and xs="[]" and outfitId="''local_1735776000000''"
        and b'=empty_store and ls'="quota_exceeded ?one" and ys="[]"]
      startsWith_local_example2 q
    by blast
  have d: "snd (snd (deleteOutfit direct_store ''row_0'' empty_store ?one)) = ?one"
    using t[where b=empty_store and ls=empty_cache and xs="[]" and outfitId="''row_0''"
        and b'=empty_store and ls'="?one" and ys="[]"]
      startsWith_row_example by blast
  show ?thesis using h1 h2 a a' b c c' d startsWith_local_example2 startsWith_row_example by simp
qed

end
